theory Spec2Isabelle
  imports Main "HOL-Library.Word"
begin

section \<open>Percepto: image size reducer and description-and-narration pipeline\<close>

text \<open>
  A shallow embedding of \<^verbatim>\<open>src/app.py\<close>: the method \<^verbatim>\<open>PerceptoAI._image_to_base64\<close>
  (the image size reducer), \<^verbatim>\<open>PerceptoAI.analyze_image\<close> and
  \<^verbatim>\<open>PerceptoAI._generate_audio\<close> (the pipeline) and the size check of
  \<^verbatim>\<open>render_upload_section\<close>.

  Python exceptions are values of the type \<open>error\<close>; a computation that may raise
  returns \<open>error + 'a\<close> with \<open>Inl\<close> for the raised exception. Calls into libraries and
  remote services (Pillow, the Anthropic client, gTTS, pyttsx3) are parameters of the
  model, collected in records of functions; every such call is also written to a log, so
  that the order of the calls and the absence of a call can be stated. A leading
  underscore of a Python name is dropped, since an Isabelle name cannot start with one.
\<close>

subsection \<open>Exceptions, bytes and strings\<close>

datatype error =
    OSError string
  | ValueError string
  | ZeroDivisionError string
  | IndexError string
  | AttributeError string
  | Exception string

text \<open>\<^verbatim>\<open>str(e)\<close>: the message of an exception.\<close>

fun str :: "error \<Rightarrow> string" where
  "str (OSError m) = m"
| "str (ValueError m) = m"
| "str (ZeroDivisionError m) = m"
| "str (IndexError m) = m"
| "str (AttributeError m) = m"
| "str (Exception m) = m"

type_synonym byte = "8 word"

text \<open>
  \<^verbatim>\<open>base64.b64encode(image_bytes).decode('utf-8')\<close> of the standard library (RFC 4648):
  three bytes become four characters of the alphabet, the last group is padded with
  \<^verbatim>\<open>=\<close>.
\<close>

definition b64_alphabet :: string where
  "b64_alphabet = ''ABCDEFGHIJKLMNOPQRSTUVWXYZabcdefghijklmnopqrstuvwxyz0123456789+/''"

definition b64 :: "nat \<Rightarrow> char" where
  "b64 i = b64_alphabet ! i"

fun b64encode :: "byte list \<Rightarrow> string" where
  "b64encode (a # b # c # rest) =
     [b64 (unat a div 4), b64 (unat a mod 4 * 16 + unat b div 16),
      b64 (unat b mod 16 * 4 + unat c div 64), b64 (unat c mod 64)] @ b64encode rest"
| "b64encode [a, b] =
     [b64 (unat a div 4), b64 (unat a mod 4 * 16 + unat b div 16),
      b64 (unat b mod 16 * 4), CHR ''='']"
| "b64encode [a] = [b64 (unat a div 4), b64 (unat a mod 4 * 16), CHR ''='', CHR ''='']"
| "b64encode [] = []"

subsection \<open>Images and the Pillow calls of the reducer\<close>

text \<open>
  A decoded \<^verbatim>\<open>PIL.Image\<close>: its mode string, its size and its pixel data. The pixel data
  is of an arbitrary type \<open>'p\<close>: the reducer never looks at it, it only hands it to
  Pillow.
\<close>

record 'p image =
  mode :: string
  width :: nat
  height :: nat
  pixels :: 'p

text \<open>
  What Pillow computes on pixel data and the JPEG encoder are parameters:
  \<open>to_mode\<close> is the pixel conversion of \<^verbatim>\<open>image.convert(mode)\<close>, \<open>resample\<close> the
  resampling of \<^verbatim>\<open>image.resize(size, LANCZOS)\<close>, and \<open>save lib image format quality
  optimize\<close> is \<^verbatim>\<open>image.save(buffer, format=..., quality=..., optimize=...)\<close> followed by
  \<^verbatim>\<open>buffer.getvalue()\<close>: the encoded bytes, or the exception the encoder raises.
\<close>

record 'p pil =
  to_mode :: "string \<Rightarrow> 'p image \<Rightarrow> 'p"
  resample :: "nat \<times> nat \<Rightarrow> 'p image \<Rightarrow> 'p"
  save :: "'p image \<Rightarrow> string \<Rightarrow> nat \<Rightarrow> bool \<Rightarrow> error + byte list"

text \<open>The log of the reducer: each Pillow call with its receiver and arguments.\<close>

datatype 'p call =
    Convert "'p image" string
  | Thumbnail "'p image" "nat \<times> nat"
  | Save "'p image" string nat bool

text \<open>\<^verbatim>\<open>image.convert(m)\<close>: a new image of mode \<open>m\<close> and of the same size.\<close>

definition convert :: "'p pil \<Rightarrow> 'p image \<Rightarrow> string \<Rightarrow> 'p image" where
  "convert lib img m = img\<lparr>mode := m, pixels := to_mode lib m img\<rparr>"

text \<open>
  Modelled from the spec: \<^verbatim>\<open>Image.thumbnail\<close> is code of the Pillow library, which is not
  among the sources; the spec (4.1, steps 2, 4 and 5) describes it as "downscale
  proportionally so the longer side equals" the bound, "aspect ratio preserved exactly
  (integer rounding on the shorter side)". The definitions \<open>round_aspect\<close>,
  \<open>preserve_aspect_ratio\<close> and \<open>thumbnail\<close> follow the algorithm of Pillow 9.1 and
  later (the versions that have \<^verbatim>\<open>Image.Resampling\<close>, which the source uses):

  \<^verbatim>\<open>
  def round_aspect(number, key):
      return max(min(math.floor(number), math.ceil(number), key=key), 1)
  x, y = provided_size
  if x >= self.width and y >= self.height:
      return
  aspect = self.width / self.height
  if x / y >= aspect:
      x = round_aspect(y * aspect, key=lambda n: abs(aspect - n / y))
  else:
      y = round_aspect(x / aspect, key=lambda n: 0 if n == 0 else abs(aspect - x / n))
  return x, y
  \<close>

  Pillow computes with floating-point numbers; here a quotient is a pair of natural
  numbers (numerator, denominator) and is compared exactly, by cross-multiplication.
  Where the two candidates of \<^verbatim>\<open>min\<close> have the same key, \<^verbatim>\<open>min\<close> returns the first one,
  the floor.
\<close>

type_synonym frac = "nat \<times> nat"

definition frac_less :: "frac \<Rightarrow> frac \<Rightarrow> bool" where
  "frac_less p q = (fst p * snd q < fst q * snd p)"

definition absdiff :: "nat \<Rightarrow> nat \<Rightarrow> nat" where
  "absdiff a b = (if a \<le> b then b - a else a - b)"

text \<open>
  Modelled from the spec: \<open>round_aspect num den key\<close> is Pillow's
  \<^verbatim>\<open>round_aspect(number, key)\<close> at \<open>number = num / den\<close>.
\<close>

definition round_aspect :: "nat \<Rightarrow> nat \<Rightarrow> (nat \<Rightarrow> frac) \<Rightarrow> nat" where
  "round_aspect num den key =
     (let fl = num div den;
          ce = (if den dvd num then fl else fl + 1)
      in max (if frac_less (key ce) (key fl) then ce else fl) 1)"

text \<open>
  Modelled from the spec: Pillow's \<^verbatim>\<open>preserve_aspect_ratio\<close> for the bound
  \<open>provided_size\<close> and an image of the size \<open>sz\<close>; \<open>None\<close> when the image fits the
  bound, and the exception of a division by zero.
\<close>

definition preserve_aspect_ratio :: "nat \<times> nat \<Rightarrow> nat \<times> nat \<Rightarrow> error + (nat \<times> nat) option" where
  "preserve_aspect_ratio provided_size sz =
     (case (provided_size, sz) of ((x, y), (w, h)) \<Rightarrow>
        if x \<ge> w \<and> y \<ge> h then Inr None
        else if h = 0 then Inl (ZeroDivisionError ''division by zero'')
        else if y = 0 then Inl (ZeroDivisionError ''division by zero'')
        else if x * h \<ge> w * y
        then Inr (Some (round_aspect (y * w) h (\<lambda>n. (absdiff (w * y) (n * h), h * y)), y))
        else Inr (Some (x, round_aspect (x * h) w
                      (\<lambda>n. if n = 0 then (0, 1) else (absdiff (w * n) (x * h), h * n)))))"

text \<open>
  Modelled from the spec: Pillow's \<^verbatim>\<open>image.thumbnail(size, Image.Resampling.LANCZOS)\<close>;
  the image is resized in place to the size \<open>preserve_aspect_ratio\<close> computes, and left
  as it is when it already fits.
\<close>

definition thumbnail :: "'p pil \<Rightarrow> 'p image \<Rightarrow> nat \<times> nat \<Rightarrow> error + 'p image" where
  "thumbnail lib img sz =
     (case preserve_aspect_ratio sz (width img, height img) of
        Inl e \<Rightarrow> Inl e
      | Inr None \<Rightarrow> Inr img
      | Inr (Some (x, y)) \<Rightarrow>
          Inr (if (width img, height img) \<noteq> (x, y)
               then img\<lparr>width := x, height := y, pixels := resample lib (x, y) img\<rparr>
               else img))"

subsection \<open>The image size reducer\<close>

definition max_size_bytes :: nat where
  "max_size_bytes = 5 * 1024 * 1024"

text \<open>
  Sequencing of computations that may raise and that write to the log: the second one
  runs only if the first one returned, and the logs are concatenated.
\<close>

definition and_then :: "(error + 'a) \<times> 'c list \<Rightarrow> ('a \<Rightarrow> (error + 'b) \<times> 'c list) \<Rightarrow> (error + 'b) \<times> 'c list" where
  "and_then m f =
     (case m of
        (Inl e, l) \<Rightarrow> (Inl e, l)
      | (Inr x, l) \<Rightarrow> (case f x of (r, l') \<Rightarrow> (r, l @ l')))"

text \<open>
  Lines 64 to 66: \<^verbatim>\<open>if image.mode == 'RGBA': image = image.convert('RGB')\<close>.
\<close>

definition convert_if_needed :: "'p pil \<Rightarrow> 'p image \<Rightarrow> (error + 'p image) \<times> 'p call list" where
  "convert_if_needed lib img =
     (if mode img = ''RGBA''
      then (Inr (convert lib img ''RGB''), [Convert img ''RGB''])
      else (Inr img, []))"

text \<open>
  Lines 68 to 71 and the guard of line 86: the image is made a thumbnail of
  \<open>(max_dim, max_dim)\<close> if one of its sides is longer than \<open>max_dim\<close>.
\<close>

definition too_large :: "'p image \<Rightarrow> nat \<Rightarrow> bool" where
  "too_large img max_dim = (width img > max_dim \<or> height img > max_dim)"

definition call_thumbnail :: "'p pil \<Rightarrow> 'p image \<Rightarrow> nat \<times> nat \<Rightarrow> (error + 'p image) \<times> 'p call list" where
  "call_thumbnail lib img sz = (thumbnail lib img sz, [Thumbnail img sz])"

definition resize_if_too_large :: "'p pil \<Rightarrow> 'p image \<Rightarrow> (error + 'p image) \<times> 'p call list" where
  "resize_if_too_large lib img =
     (let max_size = 1920 in
      if too_large img max_size
      then call_thumbnail lib img (max_size, max_size)
      else (Inr img, []))"

text \<open>
  \<^verbatim>\<open>image.save(buffer, format='JPEG', quality=quality, optimize=True)\<close> and
  \<^verbatim>\<open>image_bytes = buffer.getvalue()\<close>.
\<close>

definition call_save :: "'p pil \<Rightarrow> 'p image \<Rightarrow> nat \<Rightarrow> (error + byte list) \<times> 'p call list" where
  "call_save lib img quality =
     (save lib img ''JPEG'' quality True, [Save img ''JPEG'' quality True])"

text \<open>What every \<^verbatim>\<open>return\<close> of the reducer builds from the encoded bytes.\<close>

definition payload :: "byte list \<Rightarrow> string \<times> string" where
  "payload image_bytes = (b64encode image_bytes, ''jpeg'')"

text \<open>
  Lines 76 to 82, the loop \<^verbatim>\<open>for quality in [85, 70, 50, 30]\<close>: \<open>Some\<close> of the payload
  when an iteration returns, \<open>None\<close> when the loop ends without returning.
\<close>

fun quality_ladder :: "'p pil \<Rightarrow> 'p image \<Rightarrow> nat list \<Rightarrow> (error + (string \<times> string) option) \<times> 'p call list" where
  "quality_ladder lib img [] = (Inr None, [])"
| "quality_ladder lib img (quality # rest) =
     and_then (call_save lib img quality) (\<lambda>image_bytes.
       if length image_bytes < max_size_bytes
       then (Inr (Some (payload image_bytes)), [])
       else quality_ladder lib img rest)"

text \<open>
  Lines 85 to 93, the loop \<^verbatim>\<open>for max_dim in [1280, 960, 640]\<close>. The image is changed in
  place by \<^verbatim>\<open>thumbnail\<close>, so the loop carries it: the result is \<open>Inl\<close> of the payload when
  an iteration returns, and \<open>Inr\<close> of the image as the loop left it otherwise.
\<close>

fun resize_more :: "'p pil \<Rightarrow> 'p image \<Rightarrow> nat list \<Rightarrow> (error + ((string \<times> string) + 'p image)) \<times> 'p call list" where
  "resize_more lib img [] = (Inr (Inr img), [])"
| "resize_more lib img (max_dim # rest) =
     (if too_large img max_dim
      then and_then (call_thumbnail lib img (max_dim, max_dim)) (\<lambda>img'.
           and_then (call_save lib img' 50) (\<lambda>image_bytes.
             if length image_bytes < max_size_bytes
             then (Inr (Inl (payload image_bytes)), [])
             else resize_more lib img' rest))
      else resize_more lib img rest)"

text \<open>Lines 95 to 100: the final fallback, which returns what it encodes.\<close>

definition final_fallback :: "'p pil \<Rightarrow> 'p image \<Rightarrow> (error + string \<times> string) \<times> 'p call list" where
  "final_fallback lib img =
     and_then (call_thumbnail lib img (480, 480)) (\<lambda>img'.
     and_then (call_save lib img' 30) (\<lambda>image_bytes.
       (Inr (payload image_bytes), [])))"

text \<open>\<^verbatim>\<open>PerceptoAI._image_to_base64\<close>.\<close>

definition image_to_base64 :: "'p pil \<Rightarrow> 'p image \<Rightarrow> (error + string \<times> string) \<times> 'p call list" where
  "image_to_base64 lib image0 =
     and_then (convert_if_needed lib image0) (\<lambda>image1.
     and_then (resize_if_too_large lib image1) (\<lambda>image2.
     and_then (quality_ladder lib image2 [85, 70, 50, 30]) (\<lambda>r.
       case r of
         Some p \<Rightarrow> (Inr p, [])
       | None \<Rightarrow>
           and_then (resize_more lib image2 [1280, 960, 640]) (\<lambda>r'.
             case r' of
               Inl p \<Rightarrow> (Inr p, [])
             | Inr image3 \<Rightarrow> final_fallback lib image3))))"

text \<open>
  The image the quality ladder encodes: the input after the two preparation steps
  (lines 64 to 71).
\<close>

definition prepared :: "'p pil \<Rightarrow> 'p image \<Rightarrow> (error + 'p image) \<times> 'p call list" where
  "prepared lib image0 =
     and_then (convert_if_needed lib image0) (\<lambda>image1. resize_if_too_large lib image1)"

text \<open>
  Aspect ratio within one pixel: with the longer side of the old size as the reference,
  the shorter side of the new size differs from its exact proportional value
  (new longer side times old shorter side over old longer side) by less than one.
\<close>

definition within_one_pixel :: "nat \<times> nat \<Rightarrow> nat \<times> nat \<Rightarrow> bool" where
  "within_one_pixel old new =
     (case (old, new) of ((w, h), (w', h')) \<Rightarrow>
        if h \<le> w then absdiff (h' * w) (w' * h) < w else absdiff (w' * h) (h' * w) < h)"

text \<open>
  What a logged \<^verbatim>\<open>thumbnail\<close> call did to the image: it returned, the aspect ratio is
  within one pixel, and the longer side is the bound if the image exceeded the bound
  (otherwise the size is unchanged).
\<close>

fun downscale_ok :: "'p pil \<Rightarrow> 'p call \<Rightarrow> bool" where
  "downscale_ok lib (Thumbnail img (x, y)) =
     (case thumbnail lib img (x, y) of
        Inl e \<Rightarrow> False
      | Inr img' \<Rightarrow>
          within_one_pixel (width img, height img) (width img', height img') \<and>
          (if too_large img x then max (width img') (height img') = x
           else (width img', height img') = (width img, height img)))"
| "downscale_ok lib c = True"

subsection \<open>The narration step\<close>

text \<open>
  The file system as far as the offline backend uses it: the files that exist, by path,
  with their contents. The world is the file system and the log of the calls to the
  outside (remote services, speech engines, the file system, standard output).
\<close>

type_synonym path = string

text \<open>
  The events, each with the arguments of the call: the request to a model (model,
  \<^verbatim>\<open>max_tokens\<close>, media type, image data, text), a line printed, gTTS (text, language,
  \<^verbatim>\<open>slow\<close>), the calls of pyttsx3 (the value of a property as a quotient), and the
  calls on the temporary file.
\<close>

datatype event =
    MessagesCreate string nat string string string
  | Print string
  | GTTS string string bool
  | Pyttsx3Init
  | SetProperty string frac
  | NamedTemporaryFile string
  | SaveToFile string path
  | RunAndWait
  | OpenRead path
  | Unlink path

record world =
  files :: "path \<rightharpoonup> byte list"
  log :: "event list"

text \<open>
  The speech backends are parameters. \<open>gtts text lang slow\<close> is
  \<^verbatim>\<open>gTTS(text=text, lang=lang, slow=slow)\<close> with \<^verbatim>\<open>write_to_fp\<close>: the audio, or the
  exception one of the two raises. For pyttsx3 every call may raise;
  \<open>named_temporary_file suffix files\<close> is the path
  \<^verbatim>\<open>tempfile.NamedTemporaryFile(suffix=suffix, delete=False)\<close> creates, and
  \<open>run_and_wait text\<close> is the audio \<^verbatim>\<open>engine.runAndWait()\<close> writes to the file queued by
  \<^verbatim>\<open>engine.save_to_file(text, path)\<close>.
\<close>

record speech =
  gtts :: "string \<Rightarrow> string \<Rightarrow> bool \<Rightarrow> error + byte list"
  pyttsx3_init :: "error + unit"
  set_property :: "string \<Rightarrow> frac \<Rightarrow> error + unit"
  named_temporary_file :: "string \<Rightarrow> (path \<rightharpoonup> byte list) \<Rightarrow> error + path"
  save_to_file :: "string \<Rightarrow> path \<Rightarrow> error + unit"
  run_and_wait :: "string \<Rightarrow> error + byte list"

text \<open>A call to the outside: it is logged, and its outcome is the given one.\<close>

definition call :: "event \<Rightarrow> error + 'a \<Rightarrow> world \<Rightarrow> (error + 'a) \<times> world" where
  "call ev r w = (r, w\<lparr>log := log w @ [ev]\<rparr>)"

text \<open>Sequencing in the world: a raised exception skips the rest.\<close>

definition next_do :: "(world \<Rightarrow> (error + 'a) \<times> world) \<Rightarrow> ('a \<Rightarrow> world \<Rightarrow> (error + 'b) \<times> world)
    \<Rightarrow> world \<Rightarrow> (error + 'b) \<times> world" where
  "next_do m f w =
     (case m w of
        (Inl e, w') \<Rightarrow> (Inl e, w')
      | (Inr x, w') \<Rightarrow> f x w')"

text \<open>\<^verbatim>\<open>with open(path, 'rb') as f: audio_data = f.read()\<close>.\<close>

definition open_read :: "path \<Rightarrow> world \<Rightarrow> (error + byte list) \<times> world" where
  "open_read p w =
     call (OpenRead p)
       (case files w p of
          None \<Rightarrow> Inl (OSError ''No such file or directory'')
        | Some bs \<Rightarrow> Inr bs) w"

text \<open>
  \<^verbatim>\<open>os.unlink(path)\<close>: the file is removed, also while it is open (as on POSIX
  systems); a missing file raises.
\<close>

definition unlink :: "path \<Rightarrow> world \<Rightarrow> (error + unit) \<times> world" where
  "unlink p w =
     (case files w p of
        None \<Rightarrow> call (Unlink p) (Inl (OSError ''No such file or directory'')) w
      | Some bs \<Rightarrow> call (Unlink p) (Inr ()) (w\<lparr>files := (files w)(p := None)\<rparr>))"

text \<open>
  \<^verbatim>\<open>tempfile.NamedTemporaryFile(suffix='.wav', delete=False)\<close>: an empty file is created
  under the path returned.
\<close>

definition create_temporary_file :: "speech \<Rightarrow> string \<Rightarrow> world \<Rightarrow> (error + path) \<times> world" where
  "create_temporary_file sp suffix w =
     (case named_temporary_file sp suffix (files w) of
        Inl e \<Rightarrow> call (NamedTemporaryFile suffix) (Inl e) w
      | Inr p \<Rightarrow> call (NamedTemporaryFile suffix) (Inr p) (w\<lparr>files := (files w)(p \<mapsto> [])\<rparr>))"

text \<open>
  \<^verbatim>\<open>engine.runAndWait()\<close> after \<^verbatim>\<open>engine.save_to_file(text, path)\<close>: the audio is written
  to the file; when the engine raises, the file stays as it was.
\<close>

definition engine_run :: "speech \<Rightarrow> string \<Rightarrow> path \<Rightarrow> world \<Rightarrow> (error + unit) \<times> world" where
  "engine_run sp text p w =
     (case run_and_wait sp text of
        Inl e \<Rightarrow> call RunAndWait (Inl e) w
      | Inr audio \<Rightarrow> call RunAndWait (Inr ()) (w\<lparr>files := (files w)(p \<mapsto> audio)\<rparr>))"

text \<open>Lines 168 to 173, the body of the outer \<^verbatim>\<open>try\<close>: gTTS.\<close>

definition primary_tts :: "speech \<Rightarrow> string \<Rightarrow> world \<Rightarrow> (error + byte list option) \<times> world" where
  "primary_tts sp text =
     next_do (\<lambda>w. call (GTTS text ''en'' False) (gtts sp text ''en'' False) w) (\<lambda>audio w.
       (Inr (Some audio), w))"

text \<open>Lines 176 to 189, the body of the inner \<^verbatim>\<open>try\<close>: pyttsx3 through a temporary file.\<close>

definition offline_tts :: "speech \<Rightarrow> string \<Rightarrow> world \<Rightarrow> (error + byte list option) \<times> world" where
  "offline_tts sp text =
     next_do (call Pyttsx3Init (pyttsx3_init sp)) (\<lambda>engine.
     next_do (call (SetProperty ''rate'' (150, 1)) (set_property sp ''rate'' (150, 1))) (\<lambda>_.
     next_do (call (SetProperty ''volume'' (9, 10)) (set_property sp ''volume'' (9, 10))) (\<lambda>_.
     next_do (create_temporary_file sp ''.wav'') (\<lambda>tmp_file.
     next_do (call (SaveToFile text tmp_file) (save_to_file sp text tmp_file)) (\<lambda>_.
     next_do (engine_run sp text tmp_file) (\<lambda>_.
     next_do (open_read tmp_file) (\<lambda>audio_data.
     next_do (unlink tmp_file) (\<lambda>_ w.
       (Inr (Some audio_data), w)))))))))"

text \<open>
  \<^verbatim>\<open>PerceptoAI._generate_audio\<close>: both \<^verbatim>\<open>except:\<close> clauses are bare, so each catches
  every exception; the inner one returns \<^verbatim>\<open>None\<close>.
\<close>

definition generate_audio :: "speech \<Rightarrow> string \<Rightarrow> world \<Rightarrow> (error + byte list option) \<times> world" where
  "generate_audio sp text w =
     (case primary_tts sp text w of
        (Inr audio, w1) \<Rightarrow> (Inr audio, w1)
      | (Inl e, w1) \<Rightarrow>
          (case offline_tts sp text w1 of
             (Inr audio, w2) \<Rightarrow> (Inr audio, w2)
           | (Inl e', w2) \<Rightarrow> (Inr None, w2)))"

subsection \<open>The description step\<close>

text \<open>
  An uploaded file: its \<^verbatim>\<open>size\<close> attribute, when it has one, and its bytes.
\<close>

record upload =
  size_attr :: "nat option"
  content :: "byte list"

text \<open>
  A response of \<^verbatim>\<open>client.messages.create\<close> is its list of content blocks; only a text
  block has the attribute \<^verbatim>\<open>text\<close>.
\<close>

datatype block = TextBlock string | OtherBlock

text \<open>
  The services of the description step: Pillow, \<^verbatim>\<open>Image.open\<close>,
  \<open>messages_create model max_tokens media_type data text\<close> for
  \<^verbatim>\<open>client.messages.create(model=model, max_tokens=max_tokens, messages=[...])\<close> with the
  one user message of an image block (base64 source of the given media type and data) and
  a text block, and the speech backends.
\<close>

record 'p services =
  pil :: "'p pil"
  image_open :: "upload \<Rightarrow> error + 'p image"
  messages_create :: "string \<Rightarrow> nat \<Rightarrow> string \<Rightarrow> string \<Rightarrow> string \<Rightarrow> error + block list"
  speech :: speech

text \<open>The object \<^verbatim>\<open>self\<close>: the attributes \<^verbatim>\<open>__init__\<close> sets.\<close>

record percepto =
  client :: "unit option"
  vision_models :: "string list"
  model :: string

text \<open>
  \<^verbatim>\<open>PerceptoAI.__init__\<close>, with the key of the environment (empty when it is not set)
  and the outcome of
  \<^verbatim>\<open>anthropic.Anthropic(api_key=...)\<close>. When the client cannot be made, \<^verbatim>\<open>client\<close> is
  \<^verbatim>\<open>None\<close> and the two other attributes are not set (\<^verbatim>\<open>analyze_image\<close> does not read them
  then); the model has them empty.
\<close>

definition init :: "string \<Rightarrow> error + unit \<Rightarrow> world \<Rightarrow> (error + percepto) \<times> world" where
  "init api_key anthropic w =
     (if api_key = []
      then (Inl (ValueError ''ANTHROPIC_API_KEY is not set. Please check your .env file.''), w)
      else case anthropic of
        Inr c \<Rightarrow>
          (Inr \<lparr>client = Some c,
                vision_models = [''claude-3-5-sonnet-20241022'', ''claude-3-5-haiku-20241022'',
                                 ''claude-3-sonnet-20240229'', ''claude-3-haiku-20240307''],
                model = ''claude-3-5-sonnet-20241022''\<rparr>, w)
      | Inl e \<Rightarrow>
          call (Print (''Error initializing Claude client: '' @ str e))
            (Inr \<lparr>client = None, vision_models = [], model = []\<rparr>) w)"

text \<open>The fixed text of the request (lines 124 to 132).\<close>

definition prompt :: string where
  "prompt =
     ''Please provide a detailed, accessible description of this image. Focus on:'' @ [CHR 0x0A, CHR 0x0A] @
     ''1. Overall scene and setting'' @ [CHR 0x0A] @
     ''2. People, objects, and their positions'' @ [CHR 0x0A] @
     ''3. Colors, lighting, and visual details'' @ [CHR 0x0A] @
     ''4. Any text visible in the image'' @ [CHR 0x0A] @
     ''5. Spatial relationships (left, right, center, background, foreground)'' @ [CHR 0x0A, CHR 0x0A] @
     ''Write in clear, descriptive language that would be helpful for someone who cannot see the image. Be specific about locations, colors, and what'' @ [CHR 0x27] @ ''s happening in the scene.''"

text \<open>
  The result of \<^verbatim>\<open>analyze_image\<close>: the dictionary with the key \<^verbatim>\<open>error\<close>, or the one with
  the keys \<^verbatim>\<open>description\<close>, \<^verbatim>\<open>audio_file\<close> and \<^verbatim>\<open>model_used\<close>.
\<close>

datatype results =
    Failed string
  | Described (description: string) (audio_file: "byte list option") (model_used: string)

text \<open>
  Lines 139 to 145: the request to one model and \<^verbatim>\<open>response.content[0].text\<close>.
\<close>

definition describe :: "'p services \<Rightarrow> string \<Rightarrow> string \<times> string \<Rightarrow> world \<Rightarrow> (error + string) \<times> world" where
  "describe env m image_data =
     (case image_data of (data, image_format) \<Rightarrow>
        next_do (call (MessagesCreate m 1000 (''image/'' @ image_format) data prompt)
                   (messages_create env m 1000 (''image/'' @ image_format) data prompt))
          (\<lambda>response w.
             case response of
               [] \<Rightarrow> (Inl (IndexError ''list index out of range''), w)
             | TextBlock t # _ \<Rightarrow> (Inr t, w)
             | OtherBlock # _ \<Rightarrow> (Inl (AttributeError ''text''), w)))"

text \<open>
  Lines 137 to 160, the loop \<^verbatim>\<open>for model in self.vision_models\<close>: the body of the
  \<^verbatim>\<open>try\<close> is the request and \<^verbatim>\<open>_generate_audio\<close>; \<^verbatim>\<open>except Exception\<close> prints and
  continues with the next model.
\<close>

fun try_models :: "'p services \<Rightarrow> string \<times> string \<Rightarrow> string list \<Rightarrow> world \<Rightarrow> results \<times> world" where
  "try_models env image_data [] w = (Failed ''All models failed. Please try again later.'', w)"
| "try_models env image_data (m # rest) w =
     (case next_do (describe env m image_data) (\<lambda>description.
           next_do (generate_audio (speech env) description) (\<lambda>audio w'.
             (Inr (Described description audio m), w'))) w of
        (Inr r, w') \<Rightarrow> (r, w')
      | (Inl e, w') \<Rightarrow>
          try_models env image_data rest
            (w'\<lparr>log := log w' @ [Print (''Model '' @ m @ '' failed: '' @ str e)]\<rparr>))"

text \<open>
  \<^verbatim>\<open>PerceptoAI.analyze_image\<close>. The Pillow calls of the reducer are not copied to the log
  of the world.
\<close>

definition analyze_image :: "'p services \<Rightarrow> percepto \<Rightarrow> upload \<Rightarrow> world \<Rightarrow> results \<times> world" where
  "analyze_image env self uploaded_file w =
     (if client self = None then (Failed ''Claude client not initialized'', w)
      else case image_open env uploaded_file of
        Inl e \<Rightarrow> (Failed (''Analysis failed: '' @ str e), w)
      | Inr img \<Rightarrow>
          (case fst (image_to_base64 (pil env) img) of
             Inl e \<Rightarrow> (Failed (''Analysis failed: '' @ str e), w)
           | Inr image_data \<Rightarrow> try_models env image_data (vision_models self) w))"

text \<open>The models requested and the speech backends called, according to a log.\<close>

fun requested :: "event list \<Rightarrow> string list" where
  "requested [] = []"
| "requested (MessagesCreate m n t d p # l) = m # requested l"
| "requested (ev # l) = requested l"

fun is_synthesis :: "event \<Rightarrow> bool" where
  "is_synthesis (MessagesCreate m n t d p) = False"
| "is_synthesis (Print s) = False"
| "is_synthesis ev = True"

text \<open>
  What one variant answers to the request: the text of the first content block, or the
  exception of the request or of \<^verbatim>\<open>response.content[0].text\<close>. A variant errors when
  this is an exception.
\<close>

definition answer :: "'p services \<Rightarrow> string \<Rightarrow> string \<times> string \<Rightarrow> error + string" where
  "answer env m image_data =
     (case messages_create env m 1000 (''image/'' @ snd image_data) (fst image_data) prompt of
        Inl e \<Rightarrow> Inl e
      | Inr [] \<Rightarrow> Inl (IndexError ''list index out of range'')
      | Inr (TextBlock t # _) \<Rightarrow> Inr t
      | Inr (OtherBlock # _) \<Rightarrow> Inl (AttributeError ''text''))"

subsection \<open>The upload check\<close>

text \<open>
  Strings are sequences of bytes (UTF-8). The source file holds the pictographs of its
  messages as the characters below; the messages start with them.
\<close>

definition cross_mark :: string where
  "cross_mark = [CHR 0xC3, CHR 0xA2, CHR 0xC5, CHR 0x92]"

definition light_bulb :: string where
  "light_bulb = [CHR 0xC4, CHR 0x9F, CHR 0xC5, CHR 0xB8, CHR 0xE2, CHR 0x80, CHR 0x99, CHR 0xC2, CHR 0xA1]"

definition check_mark :: string where
  "check_mark = [CHR 0xC3, CHR 0xA2, CHR 0xC5, CHR 0x93, CHR 0xE2, CHR 0x80, CHR 0xA6]"

definition camera :: string where
  "camera = [CHR 0xC4, CHR 0x9F, CHR 0xC5, CHR 0xB8, CHR 0xE2, CHR 0x80, CHR 0x9C, CHR 0xC2, CHR 0xB8]"

text \<open>\<^verbatim>\<open>str(n)\<close> of a natural number: its decimal digits.\<close>

fun string_of_nat :: "nat \<Rightarrow> string" where
  "string_of_nat n =
     (if n < 10 then [''0123456789'' ! n]
      else string_of_nat (n div 10) @ [''0123456789'' ! (n mod 10)])"

text \<open>
  \<open>format_1f a b\<close> is \<^verbatim>\<open>f"{v:.1f}"\<close> for the float \<open>v = a / b\<close>, where the quotient is
  exact: the format rounds the exact value of the float to the nearest tenth, a tie to the
  even digit. In the source \<open>v\<close> is \<^verbatim>\<open>file_size / 1024 / 1024\<close>; a division of a float by
  1024 only changes the exponent, so \<open>v\<close> is exactly \<open>file_size / 2\<^sup>2\<^sup>0\<close> for every size
  below \<open>2\<^sup>5\<^sup>3\<close>.
\<close>

definition round_half_even :: "nat \<Rightarrow> nat \<Rightarrow> nat" where
  "round_half_even a b =
     (let q = a div b; r = a mod b
      in if 2 * r < b then q
         else if 2 * r > b then q + 1
         else if even q then q else q + 1)"

definition format_1f :: "nat \<Rightarrow> nat \<Rightarrow> string" where
  "format_1f a b =
     (let t = round_half_even (10 * a) b
      in string_of_nat (t div 10) @ ''.'' @ string_of_nat (t mod 10))"

text \<open>
  The widgets of the section, as the user left them: the choice of the radio button, the
  value of \<^verbatim>\<open>st.file_uploader\<close> and of \<^verbatim>\<open>st.camera_input\<close>, and whether the button is
  pressed. The session state holds the two variables \<^verbatim>\<open>initialize_session_state\<close>
  sets. The output is the list of the messages and of the images shown; markup
  (\<^verbatim>\<open>st.markdown\<close>, \<^verbatim>\<open>st.columns\<close>) is not modelled.
\<close>

datatype input_method = UploadFile | TakePhoto

record widgets =
  radio :: input_method
  file_uploader :: "upload option"
  camera_input :: "upload option"
  button :: bool

record session_state =
  uploaded_file :: "upload option"
  analysis_results :: "results option"

datatype ui =
    StError string
  | StInfo string
  | StSuccess string
  | StImage upload string

text \<open>
  Line 254: \<^verbatim>\<open>uploaded_file.size if hasattr(uploaded_file, 'size') else
  len(uploaded_file.read())\<close>.
\<close>

definition file_size_of :: "upload \<Rightarrow> nat" where
  "file_size_of f = (case size_attr f of Some n \<Rightarrow> n | None \<Rightarrow> length (content f))"

definition max_size_mb :: nat where
  "max_size_mb = 10"

definition too_large_message :: "nat \<Rightarrow> string" where
  "too_large_message file_size =
     cross_mark @ '' File too large! Maximum size allowed is '' @ string_of_nat max_size_mb @
     ''MB. Your file is '' @ format_1f file_size (1024 * 1024) @ ''MB.''"

text \<open>
  \<^verbatim>\<open>render_upload_section\<close> from line 240 on: the new session state, the messages, and the
  value returned (the button is only shown when the session holds a file).
\<close>

definition render_upload_section :: "widgets \<Rightarrow> session_state \<Rightarrow> (bool \<times> session_state) \<times> ui list" where
  "render_upload_section wd st =
     (let uploaded = (if radio wd = UploadFile then file_uploader wd else camera_input wd);
          (st', out) =
            (case uploaded of
               Some f \<Rightarrow>
                 (let file_size = file_size_of f
                  in if file_size > max_size_mb * 1024 * 1024
                     then (st\<lparr>uploaded_file := None\<rparr>,
                           [StError (too_large_message file_size),
                            StInfo (light_bulb @ '' Please compress your image or choose a smaller file.'')])
                     else (st\<lparr>uploaded_file := Some f\<rparr>,
                           [StSuccess (check_mark @ '' Image uploaded successfully! ('' @
                                       format_1f file_size (1024 * 1024) @ ''MB)''),
                            StImage f (camera @ '' Your uploaded image'')]))
             | None \<Rightarrow> (st\<lparr>uploaded_file := None\<rparr>, []))
      in ((uploaded_file st' \<noteq> None \<and> button wd, st'), out))"

text \<open>The uploads an output decodes: \<^verbatim>\<open>st.image\<close> decodes the file it shows.\<close>

fun decoded :: "ui list \<Rightarrow> upload list" where
  "decoded [] = []"
| "decoded (StImage f caption # out) = f # decoded out"
| "decoded (u # out) = decoded out"

subsection \<open>Test doubles\<close>

text \<open>
  For the concrete runs below. The encoder of \<open>example_pil\<close> refuses every mode the JPEG
  writer of Pillow does not write (its table \<^verbatim>\<open>RAWMODE\<close> has the modes listed here) and
  otherwise returns \<open>width * height * quality / 40\<close> zero bytes.
\<close>

definition jpeg_rawmodes :: "string list" where
  "jpeg_rawmodes = [''1'', ''L'', ''RGB'', ''RGBX'', ''CMYK'', ''YCbCr'']"

definition example_pil :: "unit pil" where
  "example_pil =
     \<lparr>to_mode = (\<lambda>m img. ()),
      resample = (\<lambda>sz img. ()),
      save = (\<lambda>img fmt quality opt.
        if mode img \<in> set jpeg_rawmodes
        then Inr (replicate (width img * height img * quality div 40) 0)
        else Inl (OSError (''cannot write mode '' @ mode img @ '' as JPEG'')))\<rparr>"

text \<open>
  Speech backends: one where gTTS answers, one where gTTS fails and the engine of pyttsx3
  synthesises, and one where gTTS fails and \<^verbatim>\<open>runAndWait\<close> raises.
\<close>

definition speech_online :: speech where
  "speech_online =
     \<lparr>gtts = (\<lambda>text lang slow. Inr [73, 68, 51]),
      pyttsx3_init = Inr (),
      set_property = (\<lambda>name v. Inr ()),
      named_temporary_file = (\<lambda>suffix fs. Inr (''/tmp/tmp0'' @ suffix)),
      save_to_file = (\<lambda>text p. Inr ()),
      run_and_wait = (\<lambda>text. Inr [82, 73, 70, 70])\<rparr>"

definition speech_offline :: speech where
  "speech_offline = speech_online\<lparr>gtts := (\<lambda>text lang slow. Inl (Exception ''Connection error''))\<rparr>"

definition speech_broken :: speech where
  "speech_broken = speech_offline\<lparr>run_and_wait := (\<lambda>text. Inl (Exception ''run loop already started''))\<rparr>"

text \<open>
  A description service with the variants A, B, C and D, of which only D answers.
\<close>

definition example_services :: "speech \<Rightarrow> unit services" where
  "example_services sp =
     \<lparr>pil = example_pil,
      image_open = (\<lambda>f. Inr \<lparr>mode = ''RGB'', width = 640, height = 480, pixels = ()\<rparr>),
      messages_create = (\<lambda>m max_tokens media_type data text.
        if m = ''D'' then Inr [TextBlock ''a red ball''] else Inl (Exception ''overloaded'')),
      speech = sp\<rparr>"

definition empty_world :: world where
  "empty_world = \<lparr>files = Map.empty, log = []\<rparr>"

text \<open>
  An encoder of \<open>width * height * quality / 2\<close> bytes: for an image of 1920 x 1440
  pixels every encoding before the final fallback is too long.
\<close>

definition dense_pil :: "unit pil" where
  "dense_pil = example_pil\<lparr>save := (\<lambda>img fmt quality opt.
     Inr (replicate (width img * height img * quality div 2) 0))\<rparr>"

section \<open>Properties\<close>

declare string_of_nat.simps [simp del]

lemmas reducer_defs = prepared_def convert_if_needed_def resize_if_too_large_def too_large_def
  call_thumbnail_def thumbnail_def preserve_aspect_ratio_def round_aspect_def frac_less_def
  absdiff_def call_save_def convert_def and_then_def max_size_bytes_def payload_def
  final_fallback_def image_to_base64_def

lemmas speech_defs = generate_audio_def primary_tts_def offline_tts_def next_do_def call_def
  create_temporary_file_def engine_run_def open_read_def unlink_def

lemmas double_defs = example_pil_def jpeg_rawmodes_def speech_broken_def speech_offline_def
  speech_online_def empty_world_def example_services_def

subsection \<open>Sequencing\<close>

lemma and_then_assoc: "and_then (and_then m f) g = and_then m (\<lambda>x. and_then (f x) g)"
  by (auto simp: and_then_def split: prod.splits sum.splits)

lemma and_then_Inr: "and_then (Inr x, l) f = (fst (f x), l @ snd (f x))"
  by (simp add: and_then_def split: prod.splits)

lemma and_then_Inl: "and_then (Inl e, l) f = (Inl e, l)"
  by (simp add: and_then_def)

text \<open>The reducer is the two preparation steps followed by the three encoding stages.\<close>

lemma image_to_base64_prepared:
  "image_to_base64 lib image0 =
     and_then (prepared lib image0) (\<lambda>image2.
     and_then (quality_ladder lib image2 [85, 70, 50, 30]) (\<lambda>r.
       case r of
         Some p \<Rightarrow> (Inr p, [])
       | None \<Rightarrow>
           and_then (resize_more lib image2 [1280, 960, 640]) (\<lambda>r'.
             case r' of
               Inl p \<Rightarrow> (Inr p, [])
             | Inr image3 \<Rightarrow> final_fallback lib image3)))"
  by (simp add: image_to_base64_def prepared_def and_then_assoc)

subsection \<open>The quality ladder\<close>

text \<open>
  The loop over a list of qualities: if the encodings of a prefix of the list are all too
  long and the next one is short enough, the loop returns that one, and it has called the
  encoder for the prefix and for that quality, in the order of the list, and for nothing
  after it.
\<close>

lemma quality_ladder_accept:
  assumes "\<forall>p\<in>set pre. \<exists>bs'. save lib img ''JPEG'' p True = Inr bs' \<and> \<not> length bs' < max_size_bytes"
    and "save lib img ''JPEG'' q True = Inr bs"
    and "length bs < max_size_bytes"
  shows "quality_ladder lib img (pre @ q # post) =
           (Inr (Some (payload bs)), map (\<lambda>p. Save img ''JPEG'' p True) (pre @ [q]))"
  using assms
proof (induction pre)
  case Nil
  then show ?case by (simp add: call_save_def and_then_Inr)
next
  case (Cons p pre)
  then obtain bs' where "save lib img ''JPEG'' p True = Inr bs'" "\<not> length bs' < max_size_bytes"
    by auto
  with Cons show ?case by (simp add: call_save_def and_then_Inr)
qed

text \<open>
  Claim C7. The quality ladder encodes the prepared image at the qualities 85, 70, 50, 30
  in this order, always as JPEG, and returns the first encoding shorter than
  5 * 1024 * 1024 bytes: when the list splits into \<open>pre\<close>, \<open>q\<close> and \<open>post\<close> such that the
  encodings at the qualities of \<open>pre\<close> are not shorter than the limit and the one at \<open>q\<close>
  is, the reducer returns the base64 text of the encoding at \<open>q\<close> with the tag
  \<^verbatim>\<open>jpeg\<close>, and after the preparation its log holds exactly the \<^verbatim>\<open>save\<close> calls for
  \<open>pre\<close> and \<open>q\<close>: no quality of \<open>post\<close> is tried.
\<close>

theorem quality_ladder_returns_first_accepted:
  assumes "prepared lib image0 = (Inr img, l0)"
    and "[85, 70, 50, 30] = pre @ q # post"
    and "\<forall>p\<in>set pre. \<exists>bs'. save lib img ''JPEG'' p True = Inr bs' \<and> \<not> length bs' < 5 * 1024 * 1024"
    and "save lib img ''JPEG'' q True = Inr bs"
    and "length bs < 5 * 1024 * 1024"
  shows "image_to_base64 lib image0 =
           (Inr (b64encode bs, ''jpeg''), l0 @ map (\<lambda>p. Save img ''JPEG'' p True) (pre @ [q]))"
proof -
  have "quality_ladder lib img [85, 70, 50, 30] =
          (Inr (Some (payload bs)), map (\<lambda>p. Save img ''JPEG'' p True) (pre @ [q]))"
    unfolding assms(2) using assms(3-5)
    by (intro quality_ladder_accept) (simp_all add: max_size_bytes_def)
  then show ?thesis
    by (simp add: image_to_base64_prepared assms(1) and_then_Inr payload_def)
qed

lemma example_prepared:
  "prepared example_pil \<lparr>mode = ''RGB'', width = 4000, height = 3000, pixels = ()\<rparr> =
     (Inr \<lparr>mode = ''RGB'', width = 1920, height = 1440, pixels = ()\<rparr>,
      [Thumbnail \<lparr>mode = ''RGB'', width = 4000, height = 3000, pixels = ()\<rparr> (1920, 1920)])"
  by (simp add: reducer_defs example_pil_def Let_def)

text \<open>
  A run of C7: a 4000 x 3000 image is made 1920 x 1440; its encoding at quality 85 has
  5875200 bytes, which is too long, the one at quality 70 has 4838400 bytes and is
  returned; the qualities 50 and 30 are not tried.
\<close>

theorem quality_ladder_returns_first_accepted_witness:
  "prepared example_pil \<lparr>mode = ''RGB'', width = 4000, height = 3000, pixels = ()\<rparr> =
     (Inr \<lparr>mode = ''RGB'', width = 1920, height = 1440, pixels = ()\<rparr>,
      [Thumbnail \<lparr>mode = ''RGB'', width = 4000, height = 3000, pixels = ()\<rparr> (1920, 1920)]) \<and>
   save example_pil \<lparr>mode = ''RGB'', width = 1920, height = 1440, pixels = ()\<rparr> ''JPEG'' 85 True =
     Inr (replicate 5875200 0) \<and>
   save example_pil \<lparr>mode = ''RGB'', width = 1920, height = 1440, pixels = ()\<rparr> ''JPEG'' 70 True =
     Inr (replicate 4838400 0) \<and>
   image_to_base64 example_pil \<lparr>mode = ''RGB'', width = 4000, height = 3000, pixels = ()\<rparr> =
     (Inr (b64encode (replicate 4838400 0), ''jpeg''),
      [Thumbnail \<lparr>mode = ''RGB'', width = 4000, height = 3000, pixels = ()\<rparr> (1920, 1920),
       Save \<lparr>mode = ''RGB'', width = 1920, height = 1440, pixels = ()\<rparr> ''JPEG'' 85 True,
       Save \<lparr>mode = ''RGB'', width = 1920, height = 1440, pixels = ()\<rparr> ''JPEG'' 70 True])"
  using quality_ladder_returns_first_accepted [of example_pil
      "\<lparr>mode = ''RGB'', width = 4000, height = 3000, pixels = ()\<rparr>"
      "\<lparr>mode = ''RGB'', width = 1920, height = 1440, pixels = ()\<rparr>"
      "[Thumbnail \<lparr>mode = ''RGB'', width = 4000, height = 3000, pixels = ()\<rparr> (1920, 1920)]"
      "[85]" 70 "[50, 30]" "replicate 4838400 0"]
  by (simp add: example_prepared) (simp add: example_pil_def jpeg_rawmodes_def)

subsection \<open>The returned payload\<close>

text \<open>The base64 text is four thirds as long as the bytes it encodes.\<close>

lemma length_b64encode: "length (b64encode bs) = 4 * ((length bs + 2) div 3)"
proof (induction bs rule: b64encode.induct)
  case (1 a b c rest)
  have "(5 + length rest) div 3 = Suc (Suc (length rest)) div 3 + 1" by presburger
  with 1 show ?case by simp
qed simp_all

lemma and_then_returns:
  assumes "fst (and_then m f) = Inr y"
  shows "\<exists>x. fst m = Inr x \<and> fst (f x) = Inr y"
  using assms by (cases m) (auto simp: and_then_def split: sum.splits prod.splits)

lemma call_save_returns: "fst (call_save lib img q) = save lib img ''JPEG'' q True"
  by (simp add: call_save_def)

text \<open>A payload returned by one of the two loops passed the check of its length.\<close>

lemma quality_ladder_checked:
  assumes "fst (quality_ladder lib img qs) = Inr (Some p)"
  shows "\<exists>bs. p = payload bs \<and> length bs < max_size_bytes"
  using assms
proof (induction qs)
  case Nil
  then show ?case by simp
next
  case (Cons q qs)
  from and_then_returns [OF Cons.prems [unfolded quality_ladder.simps]]
  obtain bs where "fst (if length bs < max_size_bytes
                        then (Inr (Some (payload bs)), [])
                        else quality_ladder lib img qs) = Inr (Some p)"
    by blast
  with Cons.IH show ?case by (cases "length bs < max_size_bytes") auto
qed

lemma resize_more_checked:
  assumes "fst (resize_more lib img ds) = Inr (Inl p)"
  shows "\<exists>bs. p = payload bs \<and> length bs < max_size_bytes"
  using assms
proof (induction ds arbitrary: img)
  case Nil
  then show ?case by simp
next
  case (Cons d ds)
  show ?case
  proof (cases "too_large img d")
    case False
    with Cons show ?thesis by simp
  next
    case True
    with Cons.prems have
      "fst (and_then (call_thumbnail lib img (d, d)) (\<lambda>img'.
            and_then (call_save lib img' 50) (\<lambda>image_bytes.
              if length image_bytes < max_size_bytes
              then (Inr (Inl (payload image_bytes)), [])
              else resize_more lib img' ds))) = Inr (Inl p)"
      by simp
    from and_then_returns [OF this] obtain img' where
      "fst (and_then (call_save lib img' 50) (\<lambda>image_bytes.
              if length image_bytes < max_size_bytes
              then (Inr (Inl (payload image_bytes)), [])
              else resize_more lib img' ds)) = Inr (Inl p)"
      by blast
    from and_then_returns [OF this] obtain bs where
      "fst (if length bs < max_size_bytes
            then (Inr (Inl (payload bs)), [])
            else resize_more lib img' ds) = Inr (Inl p)"
      by blast
    with Cons.IH [of img'] show ?thesis by (cases "length bs < max_size_bytes") auto
  qed
qed

lemma final_fallback_returns:
  assumes "fst (final_fallback lib img) = Inr p"
  shows "\<exists>img' bs. thumbnail lib img (480, 480) = Inr img' \<and>
           save lib img' ''JPEG'' 30 True = Inr bs \<and> p = payload bs"
proof -
  from and_then_returns [OF assms [unfolded final_fallback_def]] obtain img' where
    t: "fst (call_thumbnail lib img (480, 480)) = Inr img'"
    and "fst (and_then (call_save lib img' 30) (\<lambda>image_bytes. (Inr (payload image_bytes), []))) = Inr p"
    by blast
  from and_then_returns [OF this(2)] obtain bs where
    "fst (call_save lib img' 30) = Inr bs" "p = payload bs" by auto
  with t show ?thesis by (auto simp: call_thumbnail_def call_save_def)
qed

text \<open>
  What the reducer returns is the base64 text of a JPEG encoding, and the encoding is
  either shorter than the limit or the one of the final fallback: the encoding at quality
  30 of the thumbnail within 480 x 480 of the image the resize loop left, returned without
  a check of its length.
\<close>

lemma returned_payload_checked_or_fallback:
  assumes "fst (image_to_base64 lib image0) = Inr p"
  shows "\<exists>bs. p = (b64encode bs, ''jpeg'') \<and>
           (length bs < 5 * 1024 * 1024 \<or>
            (\<exists>img img'. thumbnail lib img (480, 480) = Inr img' \<and>
               save lib img' ''JPEG'' 30 True = Inr bs))"
proof -
  from and_then_returns [OF assms [unfolded image_to_base64_prepared]] obtain image2 where
    "fst (and_then (quality_ladder lib image2 [85, 70, 50, 30]) (\<lambda>r.
       case r of
         Some p \<Rightarrow> (Inr p, [])
       | None \<Rightarrow>
           and_then (resize_more lib image2 [1280, 960, 640]) (\<lambda>r'.
             case r' of
               Inl p \<Rightarrow> (Inr p, [])
             | Inr image3 \<Rightarrow> final_fallback lib image3))) = Inr p"
    by blast
  from and_then_returns [OF this] obtain r where
    r: "fst (quality_ladder lib image2 [85, 70, 50, 30]) = Inr r"
    and rest: "fst (case r of
         Some p \<Rightarrow> (Inr p, [])
       | None \<Rightarrow>
           and_then (resize_more lib image2 [1280, 960, 640]) (\<lambda>r'.
             case r' of
               Inl p \<Rightarrow> (Inr p, [])
             | Inr image3 \<Rightarrow> final_fallback lib image3)) = Inr p"
    by blast
  show ?thesis
  proof (cases r)
    case (Some p')
    with rest have "p' = p" by simp
    with quality_ladder_checked r Some show ?thesis
      by (fastforce simp: payload_def max_size_bytes_def)
  next
    case None
    with rest have
      "fst (and_then (resize_more lib image2 [1280, 960, 640]) (\<lambda>r'.
             case r' of
               Inl p \<Rightarrow> (Inr p, [])
             | Inr image3 \<Rightarrow> final_fallback lib image3)) = Inr p"
      by simp
    from and_then_returns [OF this] obtain r' where
      r': "fst (resize_more lib image2 [1280, 960, 640]) = Inr r'"
      and last: "fst (case r' of Inl p \<Rightarrow> (Inr p, []) | Inr image3 \<Rightarrow> final_fallback lib image3) = Inr p"
      by blast
    show ?thesis
    proof (cases r')
      case (Inl p')
      with last have "p' = p" by simp
      with resize_more_checked r' Inl show ?thesis
        by (fastforce simp: payload_def max_size_bytes_def)
    next
      case (Inr image3)
      with last have "fst (final_fallback lib image3) = Inr p" by simp
      from final_fallback_returns [OF this] show ?thesis
        by (auto simp: payload_def)
    qed
  qed
qed

subsection \<open>Colour modes\<close>

text \<open>An RGBA image is converted to RGB before anything else.\<close>

lemma convert_if_needed_RGBA:
  "convert_if_needed lib \<lparr>mode = ''RGBA'', width = w, height = h, pixels = p\<rparr> =
     (Inr \<lparr>mode = ''RGB'', width = w, height = h,
           pixels = to_mode lib ''RGB'' \<lparr>mode = ''RGBA'', width = w, height = h, pixels = p\<rparr>\<rparr>,
      [Convert \<lparr>mode = ''RGBA'', width = w, height = h, pixels = p\<rparr> ''RGB''])"
  by (simp add: convert_if_needed_def convert_def)

text \<open>
  Claim C6 says that an image of any mode with an alpha channel is flattened to three
  opaque channels before an encoding is attempted. The reducer converts the mode RGBA
  only. A greyscale image with alpha (mode LA) reaches the encoder as it is: the log has
  no \<^verbatim>\<open>convert\<close>, the first \<^verbatim>\<open>save\<close> receives the image in mode LA, and the JPEG
  writer, which does not write this mode, raises.
\<close>

theorem alpha_mode_other_than_RGBA_not_flattened:
  "image_to_base64 example_pil \<lparr>mode = ''LA'', width = 100, height = 100, pixels = ()\<rparr> =
     (Inl (OSError ''cannot write mode LA as JPEG''),
      [Save \<lparr>mode = ''LA'', width = 100, height = 100, pixels = ()\<rparr> ''JPEG'' 85 True])"
  by (simp add: reducer_defs example_pil_def jpeg_rawmodes_def)

text \<open>
  Claim C1 says that the reducer returns a payload shorter than 5 MiB for every image,
  whatever its colour mode. For a palette image (mode P, as a PNG with a palette is
  decoded) the reducer does not return: the mode is not converted, the first
  \<^verbatim>\<open>save\<close> raises and the exception leaves the reducer.
\<close>

theorem reducer_raises_on_unconverted_mode:
  "image_to_base64 example_pil \<lparr>mode = ''P'', width = 3000, height = 2000, pixels = ()\<rparr> =
     (Inl (OSError ''cannot write mode P as JPEG''),
      [Thumbnail \<lparr>mode = ''P'', width = 3000, height = 2000, pixels = ()\<rparr> (1920, 1920),
       Save \<lparr>mode = ''P'', width = 1920, height = 1280, pixels = ()\<rparr> ''JPEG'' 85 True])"
  by (simp add: reducer_defs example_pil_def jpeg_rawmodes_def Let_def)

subsection \<open>Narration\<close>

lemma generate_audio_total: "\<exists>audio w'. generate_audio sp text w = (Inr audio, w')"
  by (simp add: generate_audio_def split: prod.splits sum.splits)

text \<open>
  Claim C10. For every text, every behaviour of the two backends and every world,
  \<^verbatim>\<open>_generate_audio\<close> returns: its result is audio bytes or \<^verbatim>\<open>None\<close>, never an
  exception.
\<close>

theorem generate_audio_never_raises:
  "\<exists>audio w'. generate_audio sp text w = (Inr audio, w')"
  by (rule generate_audio_total)

text \<open>
  Claim C5 says that the temporary file of the offline backend does not exist after the
  call, whether synthesis succeeded or failed. The file is removed by \<^verbatim>\<open>os.unlink\<close> as
  the last statement before \<^verbatim>\<open>return\<close>; when \<^verbatim>\<open>runAndWait\<close> raises, the statement is
  not reached: the call returns \<^verbatim>\<open>None\<close> and the file created by
  \<^verbatim>\<open>NamedTemporaryFile\<close> still exists.
\<close>

theorem temporary_file_left_behind:
  "generate_audio speech_broken ''a red ball'' empty_world =
   (Inr None, \<lparr>files = [''/tmp/tmp0.wav'' \<mapsto> []],
      log = [GTTS ''a red ball'' ''en'' False, Pyttsx3Init, SetProperty ''rate'' (150, 1),
             SetProperty ''volume'' (9, 10), NamedTemporaryFile ''.wav'',
             SaveToFile ''a red ball'' ''/tmp/tmp0.wav'', RunAndWait]\<rparr>)"
  by (simp add: speech_defs double_defs)

text \<open>When the engine synthesises, the file is read and removed.\<close>

lemma temporary_file_removed_on_success:
  "generate_audio speech_offline ''a red ball'' empty_world =
   (Inr (Some [82, 73, 70, 70]), \<lparr>files = Map.empty,
      log = [GTTS ''a red ball'' ''en'' False, Pyttsx3Init, SetProperty ''rate'' (150, 1),
             SetProperty ''volume'' (9, 10), NamedTemporaryFile ''.wav'',
             SaveToFile ''a red ball'' ''/tmp/tmp0.wav'', RunAndWait, OpenRead ''/tmp/tmp0.wav'',
             Unlink ''/tmp/tmp0.wav'']\<rparr>)"
  by (simp add: speech_defs double_defs)

text \<open>
  In general: when the offline backend returns, the file it created is gone; when it
  raises after the file was created, the file is still there.
\<close>

lemma offline_tts_removes_on_return:
  assumes "offline_tts sp t w = (Inr audio, w')"
    and "named_temporary_file sp ''.wav'' (files w) = Inr p"
  shows "files w' p = None"
  using assms
  by (auto simp: offline_tts_def next_do_def call_def create_temporary_file_def engine_run_def
      open_read_def unlink_def split: sum.splits option.splits if_splits)

lemma offline_tts_leaves_on_raise:
  assumes "offline_tts sp t w = (Inl e, w')"
    and "pyttsx3_init sp = Inr u" and "set_property sp ''rate'' (150, 1) = Inr u1"
    and "set_property sp ''volume'' (9, 10) = Inr u2"
    and "named_temporary_file sp ''.wav'' (files w) = Inr p"
  shows "files w' p \<noteq> None"
  using assms
  by (auto simp: offline_tts_def next_do_def call_def create_temporary_file_def engine_run_def
      open_read_def unlink_def split: sum.splits option.splits if_splits)

subsection \<open>The description pipeline\<close>

lemma requested_append: "requested (l @ l') = requested l @ requested l'"
  by (induction l rule: requested.induct) simp_all

lemma describe_eq:
  "describe env m image_data w =
     (answer env m image_data,
      w\<lparr>log := log w @ [MessagesCreate m 1000 (''image/'' @ snd image_data) (fst image_data) prompt]\<rparr>)"
  by (cases image_data)
     (simp add: describe_def answer_def next_do_def call_def split: sum.splits list.splits block.splits)

text \<open>What a call to the narration step adds to the world: only events of the speech backends.\<close>

lemma primary_tts_log:
  "\<exists>l. log (snd (primary_tts sp text w)) = log w @ l \<and> list_all is_synthesis l"
  by (simp add: primary_tts_def next_do_def call_def split: sum.splits)

lemma next_do_log:
  assumes "\<And>w. \<exists>l. log (snd (m w)) = log w @ l \<and> list_all is_synthesis l"
    and "\<And>x w. \<exists>l. log (snd (f x w)) = log w @ l \<and> list_all is_synthesis l"
  shows "\<exists>l. log (snd (next_do m f w)) = log w @ l \<and> list_all is_synthesis l"
proof (cases "m w")
  case (Pair r w')
  from assms(1) [of w] Pair obtain l where l: "log w' = log w @ l" "list_all is_synthesis l"
    by auto
  show ?thesis
  proof (cases r)
    case (Inl e)
    with Pair l show ?thesis by (simp add: next_do_def)
  next
    case (Inr x)
    from assms(2) [of x w'] obtain l' where "log (snd (f x w')) = log w' @ l'" "list_all is_synthesis l'"
      by auto
    with Pair Inr l show ?thesis by (simp add: next_do_def)
  qed
qed

lemma call_log: "is_synthesis ev \<Longrightarrow> \<exists>l. log (snd (call ev r w)) = log w @ l \<and> list_all is_synthesis l"
  by (simp add: call_def)

lemma offline_tts_log:
  "\<exists>l. log (snd (offline_tts sp text w)) = log w @ l \<and> list_all is_synthesis l"
  unfolding offline_tts_def
  by (intro next_do_log call_log)
     (auto simp: create_temporary_file_def engine_run_def open_read_def unlink_def call_def
           split: sum.splits option.splits)

lemma generate_audio_log:
  "\<exists>l. log (snd (generate_audio sp t w)) = log w @ l \<and> list_all is_synthesis l"
proof -
  obtain r1 w1 where p: "primary_tts sp t w = (r1, w1)" by (cases "primary_tts sp t w")
  obtain r2 w2 where o: "offline_tts sp t w1 = (r2, w2)" by (cases "offline_tts sp t w1")
  from primary_tts_log [of sp t w] p obtain l1 where l1: "log w1 = log w @ l1" "list_all is_synthesis l1"
    by auto
  from offline_tts_log [of sp t w1] o obtain l2 where l2: "log w2 = log w1 @ l2" "list_all is_synthesis l2"
    by auto
  show ?thesis
    using p o l1 l2 by (auto simp: generate_audio_def split: sum.splits)
qed

lemma requested_synthesis: "list_all is_synthesis l \<Longrightarrow> requested l = []"
  by (induction l rule: requested.induct) simp_all

lemma generate_audio_requested:
  "requested (log (snd (generate_audio sp t w))) = requested (log w)"
  using generate_audio_log [of sp t w] by (auto simp: requested_append requested_synthesis)

declare try_models.simps(2) [simp del]

lemma try_models_error:
  assumes "answer env m image_data = Inl e"
  shows "try_models env image_data (m # rest) w =
           try_models env image_data rest
             (w\<lparr>log := log w @ [MessagesCreate m 1000 (''image/'' @ snd image_data) (fst image_data) prompt,
                                Print (''Model '' @ m @ '' failed: '' @ str e)]\<rparr>)"
  using assms by (simp add: try_models.simps(2) describe_eq next_do_def)

lemma try_models_answer:
  assumes "answer env m image_data = Inr t"
  shows "\<exists>audio w'.
           generate_audio (speech env) t
             (w\<lparr>log := log w @ [MessagesCreate m 1000 (''image/'' @ snd image_data) (fst image_data) prompt]\<rparr>) =
             (Inr audio, w') \<and>
           try_models env image_data (m # rest) w = (Described t audio m, w')"
proof -
  let ?w1 = "w\<lparr>log := log w @ [MessagesCreate m 1000 (''image/'' @ snd image_data) (fst image_data) prompt]\<rparr>"
  from generate_audio_total obtain audio w' where
    "generate_audio (speech env) t ?w1 = (Inr audio, w')" by blast
  with assms show ?thesis by (simp add: try_models.simps(2) describe_eq next_do_def)
qed

text \<open>The loop when every variant of the list errors.\<close>

lemma try_models_all_error:
  assumes "\<forall>m\<in>set ms. \<exists>e. answer env m image_data = Inl e"
  shows "fst (try_models env image_data ms w) = Failed ''All models failed. Please try again later.'' \<and>
         files (snd (try_models env image_data ms w)) = files w \<and>
         requested (log (snd (try_models env image_data ms w))) = requested (log w) @ ms \<and>
         filter is_synthesis (log (snd (try_models env image_data ms w))) = filter is_synthesis (log w)"
  using assms
proof (induction ms arbitrary: w)
  case Nil
  then show ?case by simp
next
  case (Cons m ms)
  then obtain e where e: "answer env m image_data = Inl e" by auto
  from Cons.prems have rest: "\<forall>m\<in>set ms. \<exists>e. answer env m image_data = Inl e" by simp
  show ?case
    unfolding try_models_error [OF e]
    using Cons.IH [OF rest] by (simp add: requested_append)
qed

text \<open>The loop when the variants of a prefix error and the next one answers.\<close>

lemma try_models_first_answer:
  assumes "\<forall>m'\<in>set pre. \<exists>e. answer env m' image_data = Inl e"
    and "answer env m image_data = Inr t"
  shows "\<exists>audio w1.
           fst (generate_audio (speech env) t w1) = Inr audio \<and>
           fst (try_models env image_data (pre @ m # post) w) = Described t audio m \<and>
           requested (log (snd (try_models env image_data (pre @ m # post) w))) =
             requested (log w) @ pre @ [m]"
  using assms(1)
proof (induction pre arbitrary: w)
  case Nil
  from try_models_answer [OF assms(2), of w post] obtain audio w' where
    a: "generate_audio (speech env) t
          (w\<lparr>log := log w @ [MessagesCreate m 1000 (''image/'' @ snd image_data) (fst image_data) prompt]\<rparr>) =
          (Inr audio, w')"
      "try_models env image_data (m # post) w = (Described t audio m, w')"
    by blast
  have "requested (log w') = requested (log w) @ [m]"
    using generate_audio_requested [of "speech env" t
        "w\<lparr>log := log w @ [MessagesCreate m 1000 (''image/'' @ snd image_data) (fst image_data) prompt]\<rparr>"] a(1)
    by (simp add: requested_append)
  with a show ?case
    by (intro exI [of _ audio]
        exI [of _ "w\<lparr>log := log w @ [MessagesCreate m 1000 (''image/'' @ snd image_data) (fst image_data) prompt]\<rparr>"])
       simp
next
  case (Cons m' pre)
  then obtain e where e: "answer env m' image_data = Inl e" by auto
  from Cons.prems have rest: "\<forall>m'\<in>set pre. \<exists>e. answer env m' image_data = Inl e" by simp
  show ?case
    using Cons.IH [OF rest,
        of "w\<lparr>log := log w @ [MessagesCreate m' 1000 (''image/'' @ snd image_data) (fst image_data) prompt,
                               Print (''Model '' @ m' @ '' failed: '' @ str e)]\<rparr>"]
    by (simp add: try_models_error [OF e] requested_append)
qed

lemma analyze_image_loop:
  assumes "client self \<noteq> None"
    and "image_open env uploaded = Inr img"
    and "fst (image_to_base64 (pil env) img) = Inr image_data"
  shows "analyze_image env self uploaded w = try_models env image_data (vision_models self) w"
  using assms by (simp add: analyze_image_def)

text \<open>
  Claim C2. The variants are requested one at a time in the order of the list
  \<^verbatim>\<open>vision_models\<close>, and the first one that answers decides the result: when the
  variants of a prefix \<open>pre\<close> of the list all error and the next variant \<open>m\<close> answers
  with the text \<open>t\<close>, then \<^verbatim>\<open>analyze_image\<close> returns the description \<open>t\<close> with
  \<^verbatim>\<open>model_used\<close> \<open>m\<close>, and the requests it has sent are those to \<open>pre\<close> and then to
  \<open>m\<close>, none to a later variant. (The client exists and the image was opened and
  reduced: otherwise no variant is requested.)
\<close>

theorem first_answering_variant_wins:
  assumes "client self \<noteq> None"
    and "image_open env uploaded = Inr img"
    and "fst (image_to_base64 (pil env) img) = Inr image_data"
    and "vision_models self = pre @ m # post"
    and "\<forall>m'\<in>set pre. \<exists>e. answer env m' image_data = Inl e"
    and "answer env m image_data = Inr t"
  shows "(\<exists>audio. fst (analyze_image env self uploaded w) = Described t audio m) \<and>
         requested (log (snd (analyze_image env self uploaded w))) = requested (log w) @ pre @ [m]"
  using try_models_first_answer [OF assms(5,6), of post w]
  by (auto simp: analyze_image_loop [OF assms(1-3)] assms(4))

text \<open>
  Claim C3. When every variant of the list errors, \<^verbatim>\<open>analyze_image\<close> returns the error
  "All models failed. Please try again later.", every variant has been requested once, in
  the order of the list, and no event of a speech backend is added to the log: neither
  gTTS nor pyttsx3 is called, and the file system is as before.
\<close>

theorem all_variants_fail:
  assumes "client self \<noteq> None"
    and "image_open env uploaded = Inr img"
    and "fst (image_to_base64 (pil env) img) = Inr image_data"
    and "\<forall>m\<in>set (vision_models self). \<exists>e. answer env m image_data = Inl e"
  shows "fst (analyze_image env self uploaded w) = Failed ''All models failed. Please try again later.'' \<and>
         filter is_synthesis (log (snd (analyze_image env self uploaded w))) = filter is_synthesis (log w) \<and>
         requested (log (snd (analyze_image env self uploaded w))) = requested (log w) @ vision_models self \<and>
         files (snd (analyze_image env self uploaded w)) = files w"
  using try_models_all_error [OF assms(4), of w]
  by (simp add: analyze_image_loop [OF assms(1-3)])

lemma generate_audio_both_fail:
  assumes "gtts sp t ''en'' False = Inl e1"
    and "\<forall>w1. \<exists>e2. fst (offline_tts sp t w1) = Inl e2"
  shows "fst (generate_audio sp t w) = Inr None"
proof -
  obtain r1 w1 where p: "primary_tts sp t w = (r1, w1)" by (cases "primary_tts sp t w")
  with assms(1) obtain e where r1: "r1 = Inl e"
    by (auto simp: primary_tts_def next_do_def call_def)
  obtain r2 w2 where o: "offline_tts sp t w1 = (r2, w2)" by (cases "offline_tts sp t w1")
  with assms(2) obtain e2 where "r2 = Inl e2" by (metis fst_conv)
  with p r1 o show ?thesis by (simp add: generate_audio_def)
qed

text \<open>
  Claim C4. When a variant answers with the text \<open>t\<close> and both speech backends fail
  (gTTS raises, and the offline backend raises in whatever world it runs), the result of
  \<^verbatim>\<open>analyze_image\<close> is the description \<open>t\<close> with \<^verbatim>\<open>audio_file\<close> \<^verbatim>\<open>None\<close>: a result, not
  the error dictionary.
\<close>

theorem text_survives_failed_synthesis:
  assumes "client self \<noteq> None"
    and "image_open env uploaded = Inr img"
    and "fst (image_to_base64 (pil env) img) = Inr image_data"
    and "vision_models self = pre @ m # post"
    and "\<forall>m'\<in>set pre. \<exists>e. answer env m' image_data = Inl e"
    and "answer env m image_data = Inr t"
    and "gtts (speech env) t ''en'' False = Inl e1"
    and "\<forall>w1. \<exists>e2. fst (offline_tts (speech env) t w1) = Inl e2"
  shows "fst (analyze_image env self uploaded w) = Described t None m"
proof -
  from try_models_first_answer [OF assms(5,6), of post w] obtain audio w1 where
    a: "fst (generate_audio (speech env) t w1) = Inr audio"
       "fst (try_models env image_data (pre @ m # post) w) = Described t audio m"
    by blast
  from generate_audio_both_fail [OF assms(7,8), of w1] a(1) have "audio = None" by simp
  with a(2) show ?thesis by (simp add: analyze_image_loop [OF assms(1-3)] assms(4))
qed

lemma example_image_data:
  "fst (image_to_base64 example_pil \<lparr>mode = ''RGB'', width = 640, height = 480, pixels = ()\<rparr>) =
     Inr (b64encode (replicate 652800 0), ''jpeg'')"
  by (simp add: reducer_defs example_pil_def jpeg_rawmodes_def)

lemma example_answer:
  "answer (example_services sp) m image_data =
     (if m = ''D'' then Inr ''a red ball'' else Inl (Exception ''overloaded''))"
  by (simp add: answer_def example_services_def)

text \<open>
  The case of the spec for C2: of the variants A, B, C, D the first three raise and D
  answers "a red ball".
\<close>

theorem first_answering_variant_wins_witness:
  "(\<exists>audio. fst (analyze_image (example_services speech_online)
        \<lparr>client = Some (), vision_models = [''A'', ''B'', ''C'', ''D''], model = ''A''\<rparr>
        \<lparr>size_attr = Some 1000, content = []\<rparr> empty_world) = Described ''a red ball'' audio ''D'') \<and>
   requested (log (snd (analyze_image (example_services speech_online)
        \<lparr>client = Some (), vision_models = [''A'', ''B'', ''C'', ''D''], model = ''A''\<rparr>
        \<lparr>size_attr = Some 1000, content = []\<rparr> empty_world))) = [''A'', ''B'', ''C'', ''D'']"
  using first_answering_variant_wins [where env = "example_services speech_online"
      and self = "\<lparr>client = Some (), vision_models = [''A'', ''B'', ''C'', ''D''], model = ''A''\<rparr>"
      and uploaded = "\<lparr>size_attr = Some 1000, content = []\<rparr>"
      and img = "\<lparr>mode = ''RGB'', width = 640, height = 480, pixels = ()\<rparr>"
      and image_data = "(b64encode (replicate 652800 0), ''jpeg'')"
      and pre = "[''A'', ''B'', ''C'']" and m = "''D''" and post = "[]" and t = "''a red ball''"
      and w = empty_world]
  by (simp add: example_answer) (simp add: example_services_def example_image_data empty_world_def)

text \<open>A run of C3: the four variants of \<^verbatim>\<open>__init__\<close>, all of which raise.\<close>

theorem all_variants_fail_witness:
  "fst (analyze_image (example_services speech_online)
        \<lparr>client = Some (),
         vision_models = [''claude-3-5-sonnet-20241022'', ''claude-3-5-haiku-20241022'',
                          ''claude-3-sonnet-20240229'', ''claude-3-haiku-20240307''],
         model = ''claude-3-5-sonnet-20241022''\<rparr>
        \<lparr>size_attr = Some 1000, content = []\<rparr> empty_world) =
     Failed ''All models failed. Please try again later.'' \<and>
   filter is_synthesis (log (snd (analyze_image (example_services speech_online)
        \<lparr>client = Some (),
         vision_models = [''claude-3-5-sonnet-20241022'', ''claude-3-5-haiku-20241022'',
                          ''claude-3-sonnet-20240229'', ''claude-3-haiku-20240307''],
         model = ''claude-3-5-sonnet-20241022''\<rparr>
        \<lparr>size_attr = Some 1000, content = []\<rparr> empty_world))) = []"
  using all_variants_fail [where env = "example_services speech_online"
      and self = "\<lparr>client = Some (),
         vision_models = [''claude-3-5-sonnet-20241022'', ''claude-3-5-haiku-20241022'',
                          ''claude-3-sonnet-20240229'', ''claude-3-haiku-20240307''],
         model = ''claude-3-5-sonnet-20241022''\<rparr>"
      and uploaded = "\<lparr>size_attr = Some 1000, content = []\<rparr>"
      and img = "\<lparr>mode = ''RGB'', width = 640, height = 480, pixels = ()\<rparr>"
      and image_data = "(b64encode (replicate 652800 0), ''jpeg'')"
      and w = empty_world]
  by (simp add: example_answer) (simp add: example_services_def example_image_data empty_world_def)

lemma offline_tts_broken:
  "fst (offline_tts speech_broken t w1) = Inl (Exception ''run loop already started'')"
  by (simp add: speech_defs double_defs)

text \<open>
  A run of C4: D answers "a red ball", gTTS has no connection and the engine of pyttsx3
  raises.
\<close>

theorem text_survives_failed_synthesis_witness:
  "fst (analyze_image (example_services speech_broken)
        \<lparr>client = Some (), vision_models = [''A'', ''B'', ''C'', ''D''], model = ''A''\<rparr>
        \<lparr>size_attr = Some 1000, content = []\<rparr> empty_world) = Described ''a red ball'' None ''D''"
proof -
  let ?env = "example_services speech_broken"
  let ?self = "\<lparr>client = Some (), vision_models = [''A'', ''B'', ''C'', ''D''], model = ''A''\<rparr>"
  let ?data = "(b64encode (replicate 652800 0), ''jpeg'')"
  have h1: "client ?self \<noteq> None" by simp
  have h2: "image_open ?env \<lparr>size_attr = Some 1000, content = []\<rparr> =
              Inr \<lparr>mode = ''RGB'', width = 640, height = 480, pixels = ()\<rparr>"
    by (simp add: example_services_def)
  have h3: "fst (image_to_base64 (pil ?env) \<lparr>mode = ''RGB'', width = 640, height = 480, pixels = ()\<rparr>) =
              Inr ?data"
    by (simp add: example_services_def example_image_data)
  have h4: "vision_models ?self = [''A'', ''B'', ''C''] @ ''D'' # []" by simp
  have h5: "\<forall>m'\<in>set [''A'', ''B'', ''C'']. \<exists>e. answer ?env m' ?data = Inl e"
    by (simp add: example_answer)
  have h6: "answer ?env ''D'' ?data = Inr ''a red ball''" by (simp add: example_answer)
  have h7: "gtts (speech ?env) ''a red ball'' ''en'' False = Inl (Exception ''Connection error'')"
    by (simp add: example_services_def speech_broken_def speech_offline_def speech_online_def)
  have h8: "\<forall>w1. \<exists>e2. fst (offline_tts (speech ?env) ''a red ball'' w1) = Inl e2"
    by (simp add: example_services_def offline_tts_broken)
  show ?thesis by (rule text_survives_failed_synthesis [OF h1 h2 h3 h4 h5 h6 h7 h8])
qed

text \<open>The list of an object whose client exists is the fixed list of four variants.\<close>

lemma init_vision_models:
  "init api_key (Inr c) w = (Inr self, w') \<Longrightarrow>
     client self = Some c \<and>
     vision_models self = [''claude-3-5-sonnet-20241022'', ''claude-3-5-haiku-20241022'',
                           ''claude-3-sonnet-20240229'', ''claude-3-haiku-20240307'']"
  by (auto simp: init_def split: if_splits)

subsection \<open>The upload check\<close>

lemma round_half_even_cases:
  assumes "r < b"
  shows "2 * absdiff ((if 2 * r < b then q else if 2 * r > b then q + 1
                       else if even q then q else q + 1) * b) (q * b + r) \<le> b"
  using assms by (auto simp: absdiff_def algebra_simps)

lemma round_half_even_nearest:
  assumes "0 < b"
  shows "2 * absdiff (round_half_even a b * b) a \<le> b"
proof -
  have "a mod b < b" using assms by simp
  from round_half_even_cases [OF this, of "a div b"] show ?thesis
    by (simp add: round_half_even_def Let_def)
qed

lemma string_of_nat_10: "string_of_nat 10 = ''10''"
  by (simp add: string_of_nat.simps)

text \<open>
  Claim C8. An upload of more than 10 MiB (of a size below \<open>2\<^sup>5\<^sup>3\<close> bytes, where the
  division of the source is exact) is rejected: the session holds no uploaded file
  afterwards, the section returns \<^verbatim>\<open>False\<close>, so that no analysis starts, nothing is
  decoded (\<^verbatim>\<open>st.image\<close> is not called), and the error message gives the limit and the
  size in MiB with one decimal, \<open>t\<close> tenths, where \<open>t / 10\<close> is a tenth nearest to
  \<open>file_size / 2\<^sup>2\<^sup>0\<close>.
\<close>

theorem oversized_upload_rejected:
  assumes "(if radio wd = UploadFile then file_uploader wd else camera_input wd) = Some f"
    and "file_size_of f > 10 * 1024 * 1024"
    and "file_size_of f < 2 ^ 53"
  shows "\<exists>t. render_upload_section wd st =
              ((False, st\<lparr>uploaded_file := None\<rparr>),
               [StError (cross_mark @ '' File too large! Maximum size allowed is 10MB. Your file is '' @
                         string_of_nat (t div 10) @ ''.'' @ string_of_nat (t mod 10) @ ''MB.''),
                StInfo (light_bulb @ '' Please compress your image or choose a smaller file.'')]) \<and>
            2 * absdiff (t * (1024 * 1024)) (10 * file_size_of f) \<le> 1024 * 1024 \<and>
            decoded (snd (render_upload_section wd st)) = []"
proof -
  let ?t = "round_half_even (10 * file_size_of f) (1024 * 1024)"
  have "render_upload_section wd st =
          ((False, st\<lparr>uploaded_file := None\<rparr>),
           [StError (cross_mark @ '' File too large! Maximum size allowed is 10MB. Your file is '' @
                     string_of_nat (?t div 10) @ ''.'' @ string_of_nat (?t mod 10) @ ''MB.''),
            StInfo (light_bulb @ '' Please compress your image or choose a smaller file.'')])"
    using assms(1,2)
    by (simp add: render_upload_section_def Let_def max_size_mb_def too_large_message_def
        format_1f_def string_of_nat_10)
  moreover have "2 * absdiff (?t * (1024 * 1024)) (10 * file_size_of f) \<le> 1024 * 1024"
    by (rule round_half_even_nearest) simp
  ultimately show ?thesis by (intro exI [of _ ?t]) simp
qed

text \<open>The case of the spec for C8: a file of 11 MiB is reported as 11.0MB.\<close>

theorem oversized_upload_rejected_witness:
  "render_upload_section
     \<lparr>radio = UploadFile,
      file_uploader = Some \<lparr>size_attr = Some (11 * 1024 * 1024), content = []\<rparr>,
      camera_input = None, button = True\<rparr>
     \<lparr>uploaded_file = Some \<lparr>size_attr = Some 5, content = []\<rparr>, analysis_results = None\<rparr> =
   ((False, \<lparr>uploaded_file = None, analysis_results = None\<rparr>),
    [StError (cross_mark @ '' File too large! Maximum size allowed is 10MB. Your file is 11.0MB.''),
     StInfo (light_bulb @ '' Please compress your image or choose a smaller file.'')])"
  using oversized_upload_rejected [where
      wd = "\<lparr>radio = UploadFile,
             file_uploader = Some \<lparr>size_attr = Some (11 * 1024 * 1024), content = []\<rparr>,
             camera_input = None, button = True\<rparr>"
      and f = "\<lparr>size_attr = Some (11 * 1024 * 1024), content = []\<rparr>"
      and st = "\<lparr>uploaded_file = Some \<lparr>size_attr = Some 5, content = []\<rparr>, analysis_results = None\<rparr>"]
  by (simp add: render_upload_section_def Let_def max_size_mb_def too_large_message_def
      format_1f_def round_half_even_def file_size_of_def string_of_nat.simps)

subsection \<open>Downscaling\<close>

lemma absdiff_commute: "absdiff a b = absdiff b a"
  by (simp add: absdiff_def)

lemma nearest_arith:
  assumes "m < den" and "0 < q * den + m"
    and "c = q \<or> (m \<noteq> 0 \<and> c = q + 1)"
  shows "absdiff (max c 1 * den) (q * den + m) < den"
  using assms by (cases q) (auto simp: absdiff_def algebra_simps max_def)

lemma round_aspect_nearest:
  assumes "0 < den" and "0 < num"
  shows "absdiff (round_aspect num den key * den) num < den"
proof -
  let ?q = "num div den" and ?m = "num mod den"
  let ?c = "if frac_less (key (if den dvd num then ?q else ?q + 1)) (key ?q)
            then (if den dvd num then ?q else ?q + 1) else ?q"
  have m: "?m < den" using assms(1) by simp
  have n: "0 < ?q * den + ?m" using assms(2) by simp
  have c: "?c = ?q \<or> (?m \<noteq> 0 \<and> ?c = ?q + 1)"
    by (auto simp: dvd_eq_mod_eq_0)
  from nearest_arith [OF m n c] show ?thesis
    by (simp add: round_aspect_def Let_def)
qed

lemma round_aspect_pos: "0 < round_aspect num den key"
  by (simp add: round_aspect_def Let_def)

lemma round_aspect_le:
  assumes "0 < den" and "num \<le> k * den" and "1 \<le> k"
  shows "round_aspect num den key \<le> k"
proof -
  have fl: "num div den \<le> k"
    using assms(1,2) by (metis div_le_mono div_mult_self_is_m)
  have ce: "\<not> den dvd num \<Longrightarrow> num div den + 1 \<le> k"
  proof -
    assume nd: "\<not> den dvd num"
    then have "num \<noteq> k * den" by auto
    with assms(2) have "num < k * den" by simp
    then have "num div den < k" using assms(1) by (simp add: div_less_iff_less_mult)
    then show ?thesis by simp
  qed
  show ?thesis using fl ce assms(3) by (auto simp: round_aspect_def Let_def)
qed

text \<open>
  A thumbnail with a square bound of an image with positive sides: the call returns, the
  sides stay positive, the mode is kept, and the size is within one pixel of the
  proportional one, with the longer side on the bound if the image exceeded it.
\<close>

lemma thumbnail_square:
  assumes "0 < width img" and "0 < height img" and "0 < d"
  shows "\<exists>img'. thumbnail lib img (d, d) = Inr img' \<and>
           0 < width img' \<and> 0 < height img' \<and>
           within_one_pixel (width img, height img) (width img', height img') \<and>
           (if too_large img d then max (width img') (height img') = d
            else (width img', height img') = (width img, height img))"
proof (cases "too_large img d")
  case False
  then have "preserve_aspect_ratio (d, d) (width img, height img) = Inr None"
    by (simp add: too_large_def preserve_aspect_ratio_def)
  then have "thumbnail lib img (d, d) = Inr img" by (simp add: thumbnail_def)
  with False assms show ?thesis by (simp add: within_one_pixel_def absdiff_def)
next
  case True
  let ?w = "width img" and ?h = "height img"
  from True have big: "\<not> (d \<ge> ?w \<and> d \<ge> ?h)" by (auto simp: too_large_def)
  show ?thesis
  proof (cases "?w \<le> ?h")
    case True
    let ?x = "round_aspect (d * ?w) ?h (\<lambda>n. (absdiff (?w * d) (n * ?h), ?h * d))"
    have p: "preserve_aspect_ratio (d, d) (?w, ?h) = Inr (Some (?x, d))"
      using big assms True by (simp add: preserve_aspect_ratio_def)
    have n: "absdiff (?x * ?h) (d * ?w) < ?h"
      using assms by (intro round_aspect_nearest) simp_all
    have le: "?x \<le> d"
      using assms True by (intro round_aspect_le) simp_all
    have pos: "0 < ?x" by (rule round_aspect_pos)
    have w1: "within_one_pixel (?w, ?h) (?x, d)"
    proof (cases "?h \<le> ?w")
      case True
      with \<open>?w \<le> ?h\<close> have "?h = ?w" by simp
      with n show ?thesis by (simp add: within_one_pixel_def absdiff_commute)
    next
      case False
      with n show ?thesis by (simp add: within_one_pixel_def)
    qed
    from p have "thumbnail lib img (d, d) =
        Inr (if (?w, ?h) \<noteq> (?x, d)
             then img\<lparr>width := ?x, height := d, pixels := resample lib (?x, d) img\<rparr> else img)"
      by (simp add: thumbnail_def)
    with w1 le pos assms \<open>too_large img d\<close> show ?thesis
      by (auto simp: max_def)
  next
    case False
    let ?y = "round_aspect (d * ?h) ?w
                (\<lambda>n. if n = 0 then (0, 1) else (absdiff (?w * n) (d * ?h), ?h * n))"
    from False assms have "\<not> d * ?h \<ge> ?w * d" by simp
    then have p: "preserve_aspect_ratio (d, d) (?w, ?h) = Inr (Some (d, ?y))"
      using big assms by (simp add: preserve_aspect_ratio_def)
    have n: "absdiff (?y * ?w) (d * ?h) < ?w"
      using assms by (intro round_aspect_nearest) simp_all
    have le: "?y \<le> d"
      using assms False by (intro round_aspect_le) simp_all
    have pos: "0 < ?y" by (rule round_aspect_pos)
    have w1: "within_one_pixel (?w, ?h) (d, ?y)"
      using n False by (simp add: within_one_pixel_def)
    from p have "thumbnail lib img (d, d) =
        Inr (if (?w, ?h) \<noteq> (d, ?y)
             then img\<lparr>width := d, height := ?y, pixels := resample lib (d, ?y) img\<rparr> else img)"
      by (simp add: thumbnail_def)
    with w1 le pos assms \<open>too_large img d\<close> show ?thesis
      by (auto simp: max_def)
  qed
qed

text \<open>Sizes the model computes; the last one shows the lower bound of one pixel.\<close>

lemma preserve_aspect_ratio_examples:
  "preserve_aspect_ratio (33, 33) (256, 162) = Inr (Some (33, 21))"
  "preserve_aspect_ratio (33, 33) (162, 256) = Inr (Some (21, 33))"
  "preserve_aspect_ratio (50, 50) (145, 100) = Inr (Some (50, 34))"
  "preserve_aspect_ratio (50, 50) (100, 145) = Inr (Some (34, 50))"
  "preserve_aspect_ratio (75, 75) (100, 30) = Inr (Some (75, 23))"
  "preserve_aspect_ratio (100, 100) (128, 128) = Inr (Some (100, 100))"
  "preserve_aspect_ratio (50, 100) (128, 128) = Inr (Some (50, 50))"
  "preserve_aspect_ratio (100, 100) (256, 128) = Inr (Some (100, 50))"
  "preserve_aspect_ratio (50, 100) (256, 128) = Inr (Some (50, 25))"
  "preserve_aspect_ratio (100, 100) (64, 64) = Inr None"
  "preserve_aspect_ratio (1920, 1920) (10000, 1) = Inr (Some (1920, 1))"
  by (simp_all add: preserve_aspect_ratio_def round_aspect_def frac_less_def absdiff_def Let_def)

lemma and_then_log:
  assumes "list_all P (snd m)"
    and "\<And>x. fst m = Inr x \<Longrightarrow> list_all P (snd (f x))"
  shows "list_all P (snd (and_then m f))"
  using assms by (cases m) (auto simp: and_then_def split: sum.splits prod.splits)

lemma call_thumbnail_ok:
  assumes "0 < width img" and "0 < height img" and "0 < d"
  shows "list_all (downscale_ok lib) (snd (call_thumbnail lib img (d, d)))"
    and "\<exists>img'. fst (call_thumbnail lib img (d, d)) = Inr img' \<and> 0 < width img' \<and> 0 < height img'"
  using thumbnail_square [OF assms, of lib] by (auto simp: call_thumbnail_def)

lemma call_save_ok: "list_all (downscale_ok lib) (snd (call_save lib img q))"
  by (simp add: call_save_def)

lemma quality_ladder_ok: "list_all (downscale_ok lib) (snd (quality_ladder lib img qs))"
  by (induction qs) (auto intro!: and_then_log call_save_ok)

lemma resize_more_ok:
  assumes "0 < width img" and "0 < height img" and "\<forall>d\<in>set ds. 0 < d"
  shows "list_all (downscale_ok lib) (snd (resize_more lib img ds)) \<and>
         (\<forall>img3. fst (resize_more lib img ds) = Inr (Inr img3) \<longrightarrow> 0 < width img3 \<and> 0 < height img3)"
  using assms
proof (induction ds arbitrary: img)
  case Nil
  then show ?case by simp
next
  case (Cons d ds)
  from Cons.prems have d: "0 < d" and ds: "\<forall>d\<in>set ds. 0 < d" by simp_all
  show ?case
  proof (cases "too_large img d")
    case False
    with Cons.IH [OF Cons.prems(1,2) ds] show ?thesis by simp
  next
    case True
    from call_thumbnail_ok [OF Cons.prems(1,2) d, of lib] obtain img' where
      t: "list_all (downscale_ok lib) (snd (call_thumbnail lib img (d, d)))"
         "fst (call_thumbnail lib img (d, d)) = Inr img'" "0 < width img'" "0 < height img'"
      by blast
    obtain lt where ct: "call_thumbnail lib img (d, d) = (Inr img', lt)"
      using t(2) by (cases "call_thumbnail lib img (d, d)") simp
    with t(1) have lt: "list_all (downscale_ok lib) lt" by simp
    note ih = Cons.IH [OF t(3,4) ds]
    obtain rs ls where cs: "call_save lib img' 50 = (rs, ls)" by (cases "call_save lib img' 50")
    with call_save_ok [of lib img' 50] have ls: "list_all (downscale_ok lib) ls" by simp
    show ?thesis
    proof (cases rs)
      case (Inl e)
      with True ct cs lt ls show ?thesis by (simp add: and_then_def)
    next
      case (Inr bs)
      with True ct cs lt ls ih show ?thesis
        by (cases "resize_more lib img' ds") (simp add: and_then_def)
    qed
  qed
qed

lemma final_fallback_ok:
  assumes "0 < width img" and "0 < height img"
  shows "list_all (downscale_ok lib) (snd (final_fallback lib img))"
  unfolding final_fallback_def
  using call_thumbnail_ok(1) [OF assms, of 480 lib]
  by (intro and_then_log call_save_ok) simp_all

lemma prepared_ok:
  assumes "0 < width image0" and "0 < height image0"
  shows "list_all (downscale_ok lib) (snd (prepared lib image0)) \<and>
         (\<exists>img. fst (prepared lib image0) = Inr img \<and> 0 < width img \<and> 0 < height img \<and>
            within_one_pixel (width image0, height image0) (width img, height img) \<and>
            (if too_large image0 1920 then max (width img) (height img) = 1920
             else (width img, height img) = (width image0, height image0)))"
proof -
  obtain image1 l1 where c: "convert_if_needed lib image0 = (Inr image1, l1)"
    and s: "width image1 = width image0" "height image1 = height image0"
    and l1: "list_all (downscale_ok lib) l1"
    by (cases "mode image0 = ''RGBA''") (simp_all add: convert_if_needed_def convert_def)
  have pos: "0 < width image1" "0 < height image1" "0 < (1920::nat)" using assms s by simp_all
  have tl: "too_large image1 1920 = too_large image0 1920" by (simp add: too_large_def s)
  from thumbnail_square [OF pos, of lib] show ?thesis
    using c l1 s tl assms
    by (auto simp: prepared_def and_then_def resize_if_too_large_def call_thumbnail_def
        within_one_pixel_def absdiff_def)
qed

lemma stages_ok:
  assumes "0 < width img" and "0 < height img"
  shows "list_all (downscale_ok lib)
      (snd (and_then (quality_ladder lib img [85, 70, 50, 30]) (\<lambda>r.
         case r of
           Some p \<Rightarrow> (Inr p, [])
         | None \<Rightarrow>
             and_then (resize_more lib img [1280, 960, 640]) (\<lambda>r'.
               case r' of
                 Inl p \<Rightarrow> (Inr p, [])
               | Inr image3 \<Rightarrow> final_fallback lib image3))))"
proof (intro and_then_log quality_ladder_ok)
  fix r
  show "list_all (downscale_ok lib)
         (snd (case r of
                 Some p \<Rightarrow> (Inr p, [])
               | None \<Rightarrow>
                   and_then (resize_more lib img [1280, 960, 640]) (\<lambda>r'.
                     case r' of
                       Inl p \<Rightarrow> (Inr p, [])
                     | Inr image3 \<Rightarrow> final_fallback lib image3)))"
  proof (cases r)
    case (Some a)
    then show ?thesis by simp
  next
    case None
    have m: "list_all (downscale_ok lib) (snd (resize_more lib img [1280, 960, 640]))"
      and m3: "\<And>img3. fst (resize_more lib img [1280, 960, 640]) = Inr (Inr img3) \<Longrightarrow>
                 0 < width img3 \<and> 0 < height img3"
      using resize_more_ok [OF assms, of "[1280, 960, 640]" lib] by simp_all
    have "list_all (downscale_ok lib)
            (snd (and_then (resize_more lib img [1280, 960, 640]) (\<lambda>r'.
               case r' of
                 Inl p \<Rightarrow> (Inr p, [])
               | Inr image3 \<Rightarrow> final_fallback lib image3)))"
    proof (rule and_then_log [OF m])
      fix x
      assume x: "fst (resize_more lib img [1280, 960, 640]) = Inr x"
      show "list_all (downscale_ok lib)
             (snd (case x of Inl p \<Rightarrow> (Inr p, []) | Inr image3 \<Rightarrow> final_fallback lib image3))"
      proof (cases x)
        case (Inl a)
        then show ?thesis by simp
      next
        case (Inr image3)
        with m3 x have "0 < width image3" "0 < height image3" by simp_all
        with Inr show ?thesis by (simp add: final_fallback_ok)
      qed
    qed
    with None show ?thesis by simp
  qed
qed

text \<open>
  Claim C9. For every image with positive sides: every \<^verbatim>\<open>thumbnail\<close> call of the
  reducer (the first one with the bound 1920 and the later ones with 1280, 960, 640 and
  480) returns an image whose aspect ratio is that of the image it was given to within
  one pixel on the shorter side, with the longer side equal to the bound whenever the
  image exceeded the bound; and an input with a side longer than 1920 leaves the
  preparation with its longer side equal to 1920.
\<close>

theorem downscale_preserves_aspect_ratio:
  assumes "0 < width image0" and "0 < height image0"
  shows "list_all (downscale_ok lib) (snd (image_to_base64 lib image0)) \<and>
         (too_large image0 1920 \<longrightarrow>
            (\<exists>img. fst (prepared lib image0) = Inr img \<and>
               max (width img) (height img) = 1920 \<and>
               within_one_pixel (width image0, height image0) (width img, height img)))"
proof
  from prepared_ok [OF assms, of lib] obtain img where
    p: "list_all (downscale_ok lib) (snd (prepared lib image0))"
       "fst (prepared lib image0) = Inr img" "0 < width img" "0 < height img"
    by blast
  show "list_all (downscale_ok lib) (snd (image_to_base64 lib image0))"
    unfolding image_to_base64_prepared
  proof (rule and_then_log [OF p(1)])
    fix x
    assume "fst (prepared lib image0) = Inr x"
    with p have "0 < width x" "0 < height x" by simp_all
    then show "list_all (downscale_ok lib)
      (snd (and_then (quality_ladder lib x [85, 70, 50, 30]) (\<lambda>r.
         case r of
           Some p \<Rightarrow> (Inr p, [])
         | None \<Rightarrow>
             and_then (resize_more lib x [1280, 960, 640]) (\<lambda>r'.
               case r' of
                 Inl p \<Rightarrow> (Inr p, [])
               | Inr image3 \<Rightarrow> final_fallback lib image3))))"
      by (rule stages_ok)
  qed
next
  show "too_large image0 1920 \<longrightarrow>
          (\<exists>img. fst (prepared lib image0) = Inr img \<and>
             max (width img) (height img) = 1920 \<and>
             within_one_pixel (width image0, height image0) (width img, height img))"
    using prepared_ok [OF assms, of lib] by auto
qed

text \<open>
  A run through every stage: with the encoder of \<open>dense_pil\<close> no encoding before
  the final fallback is short enough.
\<close>

lemma dense_run:
  "snd (image_to_base64 dense_pil \<lparr>mode = ''RGB'', width = 4000, height = 3000, pixels = ()\<rparr>) =
     [Thumbnail \<lparr>mode = ''RGB'', width = 4000, height = 3000, pixels = ()\<rparr> (1920, 1920),
      Save \<lparr>mode = ''RGB'', width = 1920, height = 1440, pixels = ()\<rparr> ''JPEG'' 85 True,
      Save \<lparr>mode = ''RGB'', width = 1920, height = 1440, pixels = ()\<rparr> ''JPEG'' 70 True,
      Save \<lparr>mode = ''RGB'', width = 1920, height = 1440, pixels = ()\<rparr> ''JPEG'' 50 True,
      Save \<lparr>mode = ''RGB'', width = 1920, height = 1440, pixels = ()\<rparr> ''JPEG'' 30 True,
      Thumbnail \<lparr>mode = ''RGB'', width = 1920, height = 1440, pixels = ()\<rparr> (1280, 1280),
      Save \<lparr>mode = ''RGB'', width = 1280, height = 960, pixels = ()\<rparr> ''JPEG'' 50 True,
      Thumbnail \<lparr>mode = ''RGB'', width = 1280, height = 960, pixels = ()\<rparr> (960, 960),
      Save \<lparr>mode = ''RGB'', width = 960, height = 720, pixels = ()\<rparr> ''JPEG'' 50 True,
      Thumbnail \<lparr>mode = ''RGB'', width = 960, height = 720, pixels = ()\<rparr> (640, 640),
      Save \<lparr>mode = ''RGB'', width = 640, height = 480, pixels = ()\<rparr> ''JPEG'' 50 True,
      Thumbnail \<lparr>mode = ''RGB'', width = 640, height = 480, pixels = ()\<rparr> (480, 480),
      Save \<lparr>mode = ''RGB'', width = 480, height = 360, pixels = ()\<rparr> ''JPEG'' 30 True]"
  by (simp add: reducer_defs dense_pil_def example_pil_def Let_def)

text \<open>A run of C9 on an image of 4001 x 3000 pixels.\<close>

theorem downscale_preserves_aspect_ratio_witness:
  "list_all (downscale_ok dense_pil)
     (snd (image_to_base64 dense_pil \<lparr>mode = ''RGB'', width = 4001, height = 3000, pixels = ()\<rparr>)) \<and>
   (\<exists>img. fst (prepared dense_pil \<lparr>mode = ''RGB'', width = 4001, height = 3000, pixels = ()\<rparr>) = Inr img \<and>
      max (width img) (height img) = 1920 \<and>
      within_one_pixel (4001, 3000) (width img, height img))"
  using downscale_preserves_aspect_ratio [of "\<lparr>mode = ''RGB'', width = 4001, height = 3000, pixels = ()\<rparr>" dense_pil]
  by (simp add: too_large_def)

text \<open>Its first downscale: 1920 * 3000 / 4001 is 1439.64, and the height becomes 1440.\<close>

lemma odd_run:
  "fst (prepared dense_pil \<lparr>mode = ''RGB'', width = 4001, height = 3000, pixels = ()\<rparr>) =
   Inr \<lparr>mode = ''RGB'', width = 1920, height = 1440, pixels = ()\<rparr>"
  by (simp add: reducer_defs dense_pil_def example_pil_def Let_def)

end
